theory Spec2Isabelle
  imports Complex_Main
begin

section \<open>Strings and JavaScript values\<close>

text \<open>
  A JavaScript string is modelled as \<^typ>\<open>string\<close>, the list of the bytes of its UTF-8
  encoding; the literals of the sources that leave ASCII (emoji, dashes, arrows) are
  written out as their bytes. Console output is not modelled: only the argument
  evaluations of a logging call that can raise are kept.
\<close>

fun startsWith :: "string \<Rightarrow> string \<Rightarrow> bool" where
  "startsWith s [] = True"
| "startsWith [] (p # ps) = False"
| "startsWith (c # cs) (p # ps) = (c = p \<and> startsWith cs ps)"

text \<open>\<^verbatim>\<open>String.prototype.includes\<close>: the pattern occurs at some position.\<close>

fun str_includes :: "string \<Rightarrow> string \<Rightarrow> bool" where
  "str_includes [] sub = (sub = [])"
| "str_includes (c # cs) sub = (startsWith (c # cs) sub \<or> str_includes cs sub)"

text \<open>
  The characters of a text. A byte \<^verbatim>\<open>10xxxxxx\<close> continues the encoding of a character,
  every other byte starts one, and a byte below \<^verbatim>\<open>0x80\<close> is a character of ASCII.
  \<open>charLen\<close> is the number of bytes of the first character and \<open>codePoints\<close> cuts a
  text into its characters, each with the bytes that continue it, which is what
  \<^verbatim>\<open>for ... of\<close> runs over.

  The runtime indexes a string and counts its \<^verbatim>\<open>length\<close> in UTF-16 code units: one for a
  character of up to three bytes, two for a character of four bytes (lead byte
  \<^verbatim>\<open>11110xxx\<close>). Half of such a pair has no encoding of its own; where the runtime
  hands out the code units one by one (\<open>codeUnits\<close>), each half is written as U+FFFD,
  the character that an encoder puts for it.
\<close>

definition isAscii :: "char \<Rightarrow> bool" where
  "isAscii c = (\<not> digit7 c)"

definition isContinuation :: "char \<Rightarrow> bool" where
  "isContinuation c = (digit7 c \<and> \<not> digit6 c)"

definition isLead4 :: "char \<Rightarrow> bool" where
  "isLead4 c = (digit7 c \<and> digit6 c \<and> digit5 c \<and> digit4 c)"

definition charLen :: "string \<Rightarrow> nat" where
  "charLen s = (case s of [] \<Rightarrow> 0 | c # cs \<Rightarrow> Suc (length (takeWhile isContinuation cs)))"

function codePoints :: "string \<Rightarrow> string list" where
  "codePoints [] = []"
| "codePoints (c # cs) =
     (c # takeWhile isContinuation cs) # codePoints (dropWhile isContinuation cs)"
  by pat_completeness auto
termination
  by (relation "measure length") (auto simp: less_Suc_eq_le length_dropWhile_le)

declare codePoints.simps [simp del]

definition utf16Length :: "string \<Rightarrow> nat" where
  "utf16Length s =
     length (filter (\<lambda>c. \<not> isContinuation c) s) + length (filter isLead4 s)"

definition codeUnits :: "string \<Rightarrow> string list" where
  "codeUnits s =
     concat (map (\<lambda>cp. if list_ex isLead4 (take 1 cp)
                         then [[CHR 0xEF, CHR 0xBF, CHR 0xBD], [CHR 0xEF, CHR 0xBF, CHR 0xBD]]
                         else [cp])
                 (codePoints s))"

text \<open>
  A value as \<^verbatim>\<open>JSON.parse\<close> and the HTTP client deliver it, with \<^verbatim>\<open>undefined\<close> for an
  absent property. Numbers are the finite doubles, read as reals.
\<close>

datatype js =
    JUndefined
  | JNull
  | JBool bool
  | JNum real
  | JStr string
  | JArr "js list"
  | JObj "(string \<times> js) list"

text \<open>
  A thrown value: an \<^verbatim>\<open>Error\<close> with its message; an error of the HTTP client also
  carries the status of the response, if one arrived (\<^verbatim>\<open>error.response?.status\<close>).
\<close>

datatype exn = Exn (exn_message: string) (exn_status: "nat option")

definition Error :: "string \<Rightarrow> exn" where
  "Error msg = Exn msg None"

section \<open>The world: token store and trace of external calls\<close>

record TokenData =
  accessToken :: string
  tokenType :: string
  scope :: string
  connectedAt :: "string option"

record request =
  req_method :: string
  req_url :: string
  req_headers :: "(string \<times> js) list"
  req_data :: js
  req_params :: "(string \<times> js) list"

text \<open>
  Everything the program does to the outside is appended to a trace: a call of a
  generative model (model, prompt, outcome), a back-off delay in milliseconds, an HTTP
  request with its outcome.
\<close>

datatype event =
    Generate string string "exn + string"
  | Sleep nat
  | Http request "exn + js"

record world =
  tokenStore :: "string \<rightharpoonup> TokenData"
  events :: "event list"

text \<open>
  The environment holds what the sources take from outside the repository: the
  external services, as functions of the trace so far and of the request, and the
  built-ins of the JavaScript runtime whose results are not modelled (number
  formatting, \<^verbatim>\<open>JSON\<close>, \<^verbatim>\<open>Buffer\<close>, the case mapping of Unicode), as arbitrary
  functions.
\<close>

record env =
  generateContent :: "event list \<Rightarrow> string \<Rightarrow> string \<Rightarrow> exn + string"
  axios :: "event list \<Rightarrow> request \<Rightarrow> exn + js"
  clock :: "event list \<Rightarrow> string"
  GITHUB_CLIENT_ID :: "string option"
  GITHUB_REDIRECT_URI :: "string option"
  COINMARKETCAP_APIKEY :: "string option"
  JSON_parse :: "string \<Rightarrow> exn + js"
  JSON_stringify :: "js \<Rightarrow> string"
  numToString :: "real \<Rightarrow> string"
  toLocaleString :: "js \<Rightarrow> exn + string"
  toFixed2 :: "real \<Rightarrow> string"
  billionsFixed2 :: "js \<Rightarrow> exn + string"
  Buffer_base64 :: "js \<Rightarrow> exn + string"
  toUpperCase :: "string \<Rightarrow> string"

section \<open>The operations of the JavaScript runtime\<close>

definition nl :: string where "nl = [CHR 0x0A]"
definition dq :: string where "dq = [CHR 0x22]"
definition sq :: string where "sq = [CHR 0x27]"
definition bq :: string where "bq = [CHR 0x60]"
definition bs :: string where "bs = [CHR 0x5C]"

text \<open>\<^verbatim>\<open>Array.prototype.join\<close> on strings.\<close>

fun join :: "string \<Rightarrow> string list \<Rightarrow> string" where
  "join sep [] = []"
| "join sep [x] = x"
| "join sep (x # y # ys) = x @ sep @ join sep (y # ys)"

definition digitChar :: "nat \<Rightarrow> char" where
  "digitChar n = ''0123456789ABCDEF'' ! n"

fun natToStr :: "nat \<Rightarrow> string" where
  "natToStr n = (if n < 10 then [digitChar n] else natToStr (n div 10) @ [digitChar (n mod 10)])"

declare natToStr.simps [simp del]

definition intToStr :: "int \<Rightarrow> string" where
  "intToStr i = (if i < 0 then ''-'' @ natToStr (nat (- i)) else natToStr (nat i))"

text \<open>
  \<^verbatim>\<open>Number::toString\<close>: an integer below \<open>10\<^sup>2\<^sup>1\<close> in magnitude prints in decimal; every
  other number is left to the runtime.
\<close>

definition numToStr :: "env \<Rightarrow> real \<Rightarrow> string" where
  "numToStr E x =
     (if x = of_int \<lfloor>x\<rfloor> \<and> \<bar>x\<bar> < 10 ^ 21 then intToStr \<lfloor>x\<rfloor> else numToString E x)"

definition truthy :: "js \<Rightarrow> bool" where
  "truthy v = (case v of
       JUndefined \<Rightarrow> False
     | JNull \<Rightarrow> False
     | JBool b \<Rightarrow> b
     | JNum x \<Rightarrow> x \<noteq> 0
     | JStr s \<Rightarrow> s \<noteq> []
     | JArr xs \<Rightarrow> True
     | JObj kvs \<Rightarrow> True)"

definition nullish :: "js \<Rightarrow> bool" where
  "nullish v = (v = JUndefined \<or> v = JNull)"

text \<open>\<^verbatim>\<open>a || b\<close> on values, and the default of a destructuring pattern (\<^verbatim>\<open>{ x = d }\<close>).\<close>

definition js_or :: "js \<Rightarrow> js \<Rightarrow> js" where
  "js_or a b = (if truthy a then a else b)"

definition orDefault :: "js \<Rightarrow> js \<Rightarrow> js" where
  "orDefault v d = (if v = JUndefined then d else v)"

definition typeName :: "js \<Rightarrow> string" where
  "typeName v = (if v = JNull then ''null'' else ''undefined'')"

text \<open>
  Reading a property \<^verbatim>\<open>v.k\<close>: a \<^verbatim>\<open>TypeError\<close> on \<^verbatim>\<open>undefined\<close> and \<^verbatim>\<open>null\<close>, the own
  property of an object, the length of an array or a string, \<^verbatim>\<open>undefined\<close> otherwise
  (none of the names the sources read is inherited from a prototype).
\<close>

definition getProp :: "js \<Rightarrow> string \<Rightarrow> exn + js" where
  "getProp v k = (case v of
       JUndefined \<Rightarrow>
         Inl (Error (''Cannot read properties of undefined (reading '' @ sq @ k @ sq @ '')''))
     | JNull \<Rightarrow>
         Inl (Error (''Cannot read properties of null (reading '' @ sq @ k @ sq @ '')''))
     | JObj kvs \<Rightarrow> Inr (case map_of kvs k of None \<Rightarrow> JUndefined | Some x \<Rightarrow> x)
     | JArr xs \<Rightarrow> Inr (if k = ''length'' then JNum (real (length xs)) else JUndefined)
     | JStr s \<Rightarrow> Inr (if k = ''length'' then JNum (real (utf16Length s)) else JUndefined)
     | JBool b \<Rightarrow> Inr JUndefined
     | JNum x \<Rightarrow> Inr JUndefined)"

text \<open>
  The source of a destructuring pattern \<^verbatim>\<open>const { k, ... } = v\<close>, where \<open>src\<close> is the text
  of the expression: a \<^verbatim>\<open>TypeError\<close> on \<^verbatim>\<open>undefined\<close> and \<^verbatim>\<open>null\<close>.
\<close>

definition destructure :: "js \<Rightarrow> string \<Rightarrow> string \<Rightarrow> exn + js" where
  "destructure v src k =
     (if nullish v
      then Inl (Error (''Cannot destructure property '' @ sq @ k @ sq @ '' of '' @ sq @ src @ sq
                       @ '' as it is '' @ typeName v @ ''.''))
      else Inr v)"

text \<open>
  The receiver of an array method (\<^verbatim>\<open>v.map(...)\<close>, \<^verbatim>\<open>v.filter(...)\<close>): only an array has
  one; \<open>src\<close> is the text of the receiver.
\<close>

definition asArray :: "js \<Rightarrow> string \<Rightarrow> string \<Rightarrow> exn + js list" where
  "asArray v src m = (case v of
       JArr xs \<Rightarrow> Inr xs
     | JUndefined \<Rightarrow>
         Inl (Error (''Cannot read properties of undefined (reading '' @ sq @ m @ sq @ '')''))
     | JNull \<Rightarrow>
         Inl (Error (''Cannot read properties of null (reading '' @ sq @ m @ sq @ '')''))
     | _ \<Rightarrow> Inl (Error (src @ ''.'' @ m @ '' is not a function'')))"

text \<open>
  The values a \<^verbatim>\<open>for ... of\<close> loop runs over: the elements of an array, the characters
  of a string; any other value is not iterable.
\<close>

definition iterate :: "js \<Rightarrow> string \<Rightarrow> exn + js list" where
  "iterate v src = (case v of
       JArr xs \<Rightarrow> Inr xs
     | JStr s \<Rightarrow> Inr (map JStr (codePoints s))
     | _ \<Rightarrow> Inl (Error (src @ '' is not iterable'')))"

text \<open>
  \<^verbatim>\<open>ToString\<close>, as a template literal applies it. An object converts to
  \<^verbatim>\<open>[object Object]\<close> unless a property of its own hides \<^verbatim>\<open>toString\<close> (no parsed value is
  callable, so the conversion then fails); an array joins its elements by commas, with
  \<^verbatim>\<open>undefined\<close> and \<^verbatim>\<open>null\<close> as the empty string.
\<close>

fun toStr :: "env \<Rightarrow> js \<Rightarrow> exn + string"
  and joinStr :: "env \<Rightarrow> js list \<Rightarrow> exn + string" where
  "toStr E JUndefined = Inr ''undefined''"
| "toStr E JNull = Inr ''null''"
| "toStr E (JBool b) = Inr (if b then ''true'' else ''false'')"
| "toStr E (JNum x) = Inr (numToStr E x)"
| "toStr E (JStr s) = Inr s"
| "toStr E (JArr xs) = joinStr E xs"
| "toStr E (JObj kvs) =
     (if map_of kvs ''toString'' = None then Inr ''[object Object]''
      else Inl (Error ''Cannot convert object to primitive value''))"
| "joinStr E [] = Inr []"
| "joinStr E (x # xs) =
     (case (if nullish x then Inr [] else toStr E x) of
        Inl e \<Rightarrow> Inl e
      | Inr s \<Rightarrow>
          (if xs = [] then Inr s
           else (case joinStr E xs of Inl e \<Rightarrow> Inl e | Inr t \<Rightarrow> Inr (s @ '','' @ t))))"

text \<open>Sequencing of computations that may throw.\<close>

definition bindE :: "exn + 'a \<Rightarrow> ('a \<Rightarrow> exn + 'b) \<Rightarrow> exn + 'b" where
  "bindE x f = (case x of Inl e \<Rightarrow> Inl e | Inr v \<Rightarrow> f v)"

definition orElse :: "exn + js \<Rightarrow> js \<Rightarrow> exn + js" where
  "orElse x d = bindE x (\<lambda>v. Inr (js_or v d))"

fun mapE :: "('a \<Rightarrow> exn + 'b) \<Rightarrow> 'a list \<Rightarrow> exn + 'b list" where
  "mapE f [] = Inr []"
| "mapE f (x # xs) = bindE (f x) (\<lambda>y. bindE (mapE f xs) (\<lambda>ys. Inr (y # ys)))"

text \<open>
  A template literal: its texts (\<open>T\<close>), its substitutions (\<open>V\<close>, a value or the error of
  evaluating it) and the lengths it prints (\<open>N\<close>), evaluated and converted from left to
  right.
\<close>

datatype piece = T string | V "exn + js" | N nat

fun render :: "env \<Rightarrow> piece list \<Rightarrow> exn + string" where
  "render E [] = Inr []"
| "render E (T s # ps) = bindE (render E ps) (\<lambda>r. Inr (s @ r))"
| "render E (N n # ps) = bindE (render E ps) (\<lambda>r. Inr (natToStr n @ r))"
| "render E (V x # ps) =
     bindE x (\<lambda>v. bindE (toStr E v) (\<lambda>s. bindE (render E ps) (\<lambda>r. Inr (s @ r))))"

section \<open>Programs: state, trace and exceptions\<close>

text \<open>
  An asynchronous function is a function of the world that returns its value, or the
  error it rejects with, and the world it leaves.
\<close>

type_synonym 'a prog = "world \<Rightarrow> (exn + 'a) \<times> world"

definition ret :: "'a \<Rightarrow> 'a prog" where
  "ret x w = (Inr x, w)"

definition throw :: "exn \<Rightarrow> 'a prog" where
  "throw e w = (Inl e, w)"

definition lift :: "exn + 'a \<Rightarrow> 'a prog" where
  "lift x w = (x, w)"

definition andThen :: "'a prog \<Rightarrow> ('a \<Rightarrow> 'b prog) \<Rightarrow> 'b prog" where
  "andThen m f w = (case m w of (Inl e, w') \<Rightarrow> (Inl e, w') | (Inr x, w') \<Rightarrow> f x w')"

definition try_catch :: "'a prog \<Rightarrow> (exn \<Rightarrow> 'a prog) \<Rightarrow> 'a prog" where
  "try_catch m h w = (case m w of (Inl e, w') \<Rightarrow> h e w' | (Inr x, w') \<Rightarrow> (Inr x, w'))"

definition generate :: "env \<Rightarrow> string \<Rightarrow> string \<Rightarrow> string prog" where
  "generate E model prompt w =
     (let out = generateContent E (events w) model prompt
      in (out, w\<lparr>events := events w @ [Generate model prompt out]\<rparr>))"

definition sleep :: "nat \<Rightarrow> world \<Rightarrow> world" where
  "sleep ms w = w\<lparr>events := events w @ [Sleep ms]\<rparr>"

definition axiosCall :: "env \<Rightarrow> request \<Rightarrow> js prog" where
  "axiosCall E req w =
     (let out = axios E (events w) req
      in (out, w\<lparr>events := events w @ [Http req out]\<rparr>))"

section \<open>Regular expressions\<close>

text \<open>
  The regular expressions of the sources, with the backtracking semantics of the
  runtime: \<open>rx_match\<close> lists the lengths of the matches that start at the current
  position, in the order the matcher tries them, so the head of the list is the match
  it reports. \<open>prev\<close> is the byte before the position (for \<^verbatim>\<open>\b\<close>, whose word characters
  are the letters, the digits and the underscore of ASCII). With the flag \<^verbatim>\<open>i\<close> the
  letters of ASCII are compared without case; the patterns of the sources hold no other
  letter, and without the flag \<^verbatim>\<open>u\<close> no character beyond ASCII is equal to one of ASCII.

  \<open>Space\<close> is the class \<^verbatim>\<open>\s\<close>: the white space and the line terminators of the
  language, which are the characters listed in \<open>spaces\<close> by their encodings (tab, line
  feed, vertical tab, form feed, carriage return, space, U+00A0, U+1680, U+2000 to
  U+200A, U+2028, U+2029, U+202F, U+205F, U+3000 and U+FEFF). \<open>NoSpaceNor cs\<close> is the
  class \<^verbatim>\<open>[^\s...]\<close>: one character, with all the bytes of its encoding, that is neither
  white space nor one of \<open>cs\<close>.
\<close>

datatype rx =
    Lit string
  | OneOf "char list"
  | Space
  | NoSpaceNor "char list"
  | Seq rx rx
  | Alt rx rx
  | Opt rx
  | Star rx
  | WordB

definition spaces :: "string list" where
  "spaces =
     [[CHR 0x09], [CHR 0x0A], [CHR 0x0B], [CHR 0x0C], [CHR 0x0D], [CHR 0x20],
      [CHR 0xC2, CHR 0xA0],
      [CHR 0xE1, CHR 0x9A, CHR 0x80],
      [CHR 0xE2, CHR 0x80, CHR 0x80], [CHR 0xE2, CHR 0x80, CHR 0x81],
      [CHR 0xE2, CHR 0x80, CHR 0x82], [CHR 0xE2, CHR 0x80, CHR 0x83],
      [CHR 0xE2, CHR 0x80, CHR 0x84], [CHR 0xE2, CHR 0x80, CHR 0x85],
      [CHR 0xE2, CHR 0x80, CHR 0x86], [CHR 0xE2, CHR 0x80, CHR 0x87],
      [CHR 0xE2, CHR 0x80, CHR 0x88], [CHR 0xE2, CHR 0x80, CHR 0x89],
      [CHR 0xE2, CHR 0x80, CHR 0x8A],
      [CHR 0xE2, CHR 0x80, CHR 0xA8], [CHR 0xE2, CHR 0x80, CHR 0xA9],
      [CHR 0xE2, CHR 0x80, CHR 0xAF],
      [CHR 0xE2, CHR 0x81, CHR 0x9F],
      [CHR 0xE3, CHR 0x80, CHR 0x80],
      [CHR 0xEF, CHR 0xBB, CHR 0xBF]]"

text \<open>
  The number of bytes of the character at the head of \<open>s\<close> if it is one of \<open>encs\<close>, and
  0 otherwise.
\<close>

definition spaceAt :: "string list \<Rightarrow> string \<Rightarrow> nat" where
  "spaceAt encs s = (case filter (startsWith s) encs of [] \<Rightarrow> 0 | e # _ \<Rightarrow> length e)"

definition isWordChar :: "char \<Rightarrow> bool" where
  "isWordChar c =
     (c \<in> set ''abcdefghijklmnopqrstuvwxyzABCDEFGHIJKLMNOPQRSTUVWXYZ0123456789_'')"

definition lowerChar :: "char \<Rightarrow> char" where
  "lowerChar c =
     (case map_of (zip ''ABCDEFGHIJKLMNOPQRSTUVWXYZ'' ''abcdefghijklmnopqrstuvwxyz'') c of
        None \<Rightarrow> c
      | Some d \<Rightarrow> d)"

definition canon :: "bool \<Rightarrow> string \<Rightarrow> string" where
  "canon ci s = (if ci then map lowerChar s else s)"

definition inClass :: "bool \<Rightarrow> char list \<Rightarrow> char \<Rightarrow> bool" where
  "inClass ci cs c = (canon ci [c] \<in> set (map (\<lambda>d. canon ci [d]) cs))"

definition prevAfter :: "char option \<Rightarrow> string \<Rightarrow> nat \<Rightarrow> char option" where
  "prevAfter prev s n = (if n = 0 \<or> length s < n then prev else Some (s ! (n - 1)))"

fun rx_match :: "bool \<Rightarrow> rx \<Rightarrow> char option \<Rightarrow> string \<Rightarrow> nat list" where
  "rx_match ci (Lit l) prev s =
     (if length l \<le> length s \<and> canon ci (take (length l) s) = canon ci l then [length l] else [])"
| "rx_match ci (OneOf cs) prev s =
     (case s of [] \<Rightarrow> [] | c # _ \<Rightarrow> if inClass ci cs c then [1] else [])"
| "rx_match ci Space prev s =
     (if 0 < spaceAt spaces s then [spaceAt spaces s] else [])"
| "rx_match ci (NoSpaceNor cs) prev s =
     (case s of
        [] \<Rightarrow> []
      | c # _ \<Rightarrow> if 0 < spaceAt spaces s \<or> inClass ci cs c then [] else [charLen s])"
| "rx_match ci (Seq r1 r2) prev s =
     concat (map (\<lambda>n. map ((+) n) (rx_match ci r2 (prevAfter prev s n) (drop n s)))
                 (rx_match ci r1 prev s))"
| "rx_match ci (Alt r1 r2) prev s = rx_match ci r1 prev s @ rx_match ci r2 prev s"
| "rx_match ci (Opt r) prev s = rx_match ci r prev s @ [0]"
| "rx_match ci (Star r) prev s =
     concat (map (\<lambda>n. if 0 < n \<and> n \<le> length s
                        then map ((+) n) (rx_match ci (Star r) (prevAfter prev s n) (drop n s))
                        else [])
                 (rx_match ci r prev s)) @ [0]"
| "rx_match ci WordB prev s =
     (if (case prev of None \<Rightarrow> False | Some c \<Rightarrow> isWordChar c)
         \<noteq> (case s of [] \<Rightarrow> False | c # _ \<Rightarrow> isWordChar c)
      then [0] else [])"

declare rx_match.simps [simp del]

definition Plus :: "rx \<Rightarrow> rx" where
  "Plus r = Seq r (Star r)"

fun Seqs :: "rx list \<Rightarrow> rx" where
  "Seqs [] = Lit []"
| "Seqs [r] = r"
| "Seqs (r # rs) = Seq r (Seqs rs)"

fun Alts :: "rx list \<Rightarrow> rx" where
  "Alts [] = OneOf []"
| "Alts [r] = r"
| "Alts (r # rs) = Alt r (Alts rs)"

text \<open>\<^verbatim>\<open>RegExp.prototype.test\<close> without the flag \<^verbatim>\<open>g\<close>: a match starts somewhere.\<close>

fun rx_test :: "bool \<Rightarrow> rx \<Rightarrow> char option \<Rightarrow> string \<Rightarrow> bool" where
  "rx_test ci r prev [] = (rx_match ci r prev [] \<noteq> [])"
| "rx_test ci r prev (c # cs) = (rx_match ci r prev (c # cs) \<noteq> [] \<or> rx_test ci r (Some c) cs)"

declare rx_test.simps [simp del]

text \<open>
  \<^verbatim>\<open>String.prototype.match\<close> with the flag \<^verbatim>\<open>g\<close>: the matches from left to right, each
  search resuming where the last match ended (one character further after an empty
  match).
\<close>

function rx_match_all :: "bool \<Rightarrow> rx \<Rightarrow> char option \<Rightarrow> string \<Rightarrow> string list" where
  "rx_match_all ci r prev s =
     (case rx_match ci r prev s of
        [] \<Rightarrow> (case s of [] \<Rightarrow> [] | c # cs \<Rightarrow> rx_match_all ci r (Some c) cs)
      | n # _ \<Rightarrow>
          if 0 < n \<and> n \<le> length s
          then take n s # rx_match_all ci r (prevAfter prev s n) (drop n s)
          else [] # (case s of [] \<Rightarrow> [] | c # cs \<Rightarrow> rx_match_all ci r (Some c) cs))"
  by pat_completeness auto
termination
  by (relation "measure (\<lambda>(ci, r, prev, s). length s)") auto

declare rx_match_all.simps [simp del]

section \<open>geminiReporter: retry and model fallback\<close>

definition MODELS :: "string list" where
  "MODELS = [''gemini-2.5-flash'', ''gemini-2.5-flash-lite'', ''gemini-3-flash'']"

definition MAX_RETRIES :: nat where
  "MAX_RETRIES = 3"

definition BASE_DELAY_MS :: nat where
  "BASE_DELAY_MS = 5000"

record GeminiResult =
  gr_success :: bool
  gr_text :: string
  gr_model :: string

definition is429 :: "string \<Rightarrow> bool" where
  "is429 errMsg =
     (str_includes errMsg ''429'' \<or> str_includes errMsg ''Too Many Requests''
      \<or> str_includes errMsg ''quota'')"

text \<open>
  The inner loop of \<open>callGeminiWithRetry\<close>, from attempt \<open>attempt\<close> on: \<open>Some\<close> of the
  result it returns, \<open>None\<close> when it leaves the loop for the next model, or the error it
  throws.
\<close>

function attemptLoop ::
  "env \<Rightarrow> string \<Rightarrow> string \<Rightarrow> nat \<Rightarrow> GeminiResult option prog" where
  "attemptLoop E prompt modelName attempt w =
     (if attempt \<le> MAX_RETRIES then
        (case generate E modelName prompt w of
           (Inr txt, w') \<Rightarrow>
             (Inr (Some \<lparr>gr_success = True, gr_text = txt, gr_model = modelName\<rparr>), w')
         | (Inl error, w') \<Rightarrow>
             if is429 (exn_message error) \<and> attempt < MAX_RETRIES
             then attemptLoop E prompt modelName (attempt + 1) (sleep (BASE_DELAY_MS * attempt) w')
             else if is429 (exn_message error) then (Inr None, w')
             else (Inl error, w'))
      else (Inr None, w))"
  by pat_completeness auto
termination
  by (relation "measure (\<lambda>(E, prompt, modelName, attempt, w). MAX_RETRIES + 1 - attempt)") auto

declare attemptLoop.simps [simp del]

fun modelLoop :: "env \<Rightarrow> string \<Rightarrow> string list \<Rightarrow> GeminiResult prog" where
  "modelLoop E prompt [] w =
     (Inl (Error ''All Gemini models exhausted their quota. Please wait or upgrade your plan.''), w)"
| "modelLoop E prompt (modelName # rest) w =
     (case attemptLoop E prompt modelName 1 w of
        (Inr (Some r), w') \<Rightarrow> (Inr r, w')
      | (Inr None, w') \<Rightarrow> modelLoop E prompt rest w'
      | (Inl e, w') \<Rightarrow> (Inl e, w'))"

definition callGeminiWithRetry :: "env \<Rightarrow> string \<Rightarrow> GeminiResult prog" where
  "callGeminiWithRetry E prompt = modelLoop E prompt MODELS"

section \<open>githubOAuthAgent: the token store\<close>

definition storeToken :: "env \<Rightarrow> string \<Rightarrow> TokenData \<Rightarrow> world \<Rightarrow> world" where
  "storeToken E userId tokenData w =
     w\<lparr>tokenStore := (tokenStore w)(userId \<mapsto> tokenData\<lparr>connectedAt := Some (clock E (events w))\<rparr>)\<rparr>"

definition getToken :: "world \<Rightarrow> string \<Rightarrow> TokenData option" where
  "getToken w userId = tokenStore w userId"

definition isConnected :: "world \<Rightarrow> string \<Rightarrow> bool" where
  "isConnected w userId = (tokenStore w userId \<noteq> None)"

definition disconnect :: "string \<Rightarrow> world \<Rightarrow> world" where
  "disconnect userId w = w\<lparr>tokenStore := (tokenStore w)(userId := None)\<rparr>"

subsection \<open>The authorization URL\<close>

text \<open>
  \<^verbatim>\<open>URLSearchParams.prototype.toString\<close>: the serialisation of
  \<^verbatim>\<open>application/x-www-form-urlencoded\<close>. Letters, digits and \<^verbatim>\<open>*-._\<close> stand for themselves,
  a space becomes \<^verbatim>\<open>+\<close>, every other byte is percent-encoded.
\<close>

definition formEncodeChar :: "char \<Rightarrow> string" where
  "formEncodeChar c =
     (if c \<in> set ''abcdefghijklmnopqrstuvwxyzABCDEFGHIJKLMNOPQRSTUVWXYZ0123456789*-._'' then [c]
      else if c = CHR 0x20 then ''+''
      else [CHR ''%'', digitChar (of_char c div 16), digitChar (of_char c mod 16)])"

definition formEncode :: "string \<Rightarrow> string" where
  "formEncode s = concat (map formEncodeChar s)"

definition URLSearchParams_toString :: "(string \<times> string) list \<Rightarrow> string" where
  "URLSearchParams_toString kvs =
     join ''&'' (map (\<lambda>(k, v). formEncode k @ ''='' @ formEncode v) kvs)"

text \<open>A variable of the process environment that is not set reads as \<^verbatim>\<open>undefined\<close>.\<close>

definition envString :: "string option \<Rightarrow> string" where
  "envString v = (case v of None \<Rightarrow> ''undefined'' | Some s \<Rightarrow> s)"

definition getAuthorizationUrl :: "env \<Rightarrow> string \<Rightarrow> string" where
  "getAuthorizationUrl E userId =
     ''https://github.com/login/oauth/authorize?'' @
     URLSearchParams_toString
       [(''client_id'', envString (GITHUB_CLIENT_ID E)),
        (''redirect_uri'', envString (GITHUB_REDIRECT_URI E)),
        (''scope'', ''repo user read:org workflow''),
        (''state'', userId)]"

subsection \<open>Authenticated calls\<close>

record apiOptions =
  opt_method :: "string option"
  opt_data :: "js option"
  opt_params :: "(string \<times> js) list option"

definition noOptions :: apiOptions where
  "noOptions = \<lparr>opt_method = None, opt_data = None, opt_params = None\<rparr>"

text \<open>The \<^verbatim>\<open>config\<close> object of \<open>githubAPI\<close>: the request, with the bearer token.\<close>

definition config :: "string \<Rightarrow> apiOptions \<Rightarrow> TokenData \<Rightarrow> request" where
  "config endpoint options tokenData =
     \<lparr>req_method = (case opt_method options of None \<Rightarrow> ''GET'' | Some m \<Rightarrow> m),
      req_url = ''https://api.github.com'' @ endpoint,
      req_headers =
        [(''Authorization'', JStr (''Bearer '' @ accessToken tokenData)),
         (''Accept'', JStr ''application/vnd.github.v3+json''),
         (''User-Agent'', JStr ''AgenticWorkflow-App'')],
      req_data = (case opt_data options of None \<Rightarrow> JNull | Some d \<Rightarrow> d),
      req_params = (case opt_params options of None \<Rightarrow> [] | Some ps \<Rightarrow> ps)\<rparr>"

definition githubAPI :: "env \<Rightarrow> string \<Rightarrow> apiOptions \<Rightarrow> string \<Rightarrow> js prog" where
  "githubAPI E endpoint options userId w =
     (case getToken w userId of
        None \<Rightarrow>
          throw (Error ''GitHub not connected. Please connect your GitHub account first.'') w
      | Some tokenData \<Rightarrow>
          (case axiosCall E (config endpoint options tokenData) w of
             (Inr responseData, w') \<Rightarrow> (Inr responseData, w')
           | (Inl error, w') \<Rightarrow>
               if exn_status error = Some 401
               then throw (Error ''GitHub token expired. Please reconnect your GitHub account.'')
                      (disconnect userId w')
               else throw error w'))"

definition getUser :: "env \<Rightarrow> string \<Rightarrow> js prog" where
  "getUser E userId = githubAPI E ''/user'' noOptions userId"

definition listRepos :: "env \<Rightarrow> string \<Rightarrow> js \<Rightarrow> js \<Rightarrow> js prog" where
  "listRepos E userId sortBy per_page =
     githubAPI E ''/user/repos''
       (noOptions\<lparr>opt_params :=
          Some [(''sort'', orDefault sortBy (JStr ''updated'')),
                (''per_page'', orDefault per_page (JNum 10)),
                (''affiliation'', JStr ''owner'')]\<rparr>)
       userId"

definition createRepo :: "env \<Rightarrow> js \<Rightarrow> js \<Rightarrow> js \<Rightarrow> js \<Rightarrow> string \<Rightarrow> js prog" where
  "createRepo E name description isPrivate autoInit userId =
     githubAPI E ''/user/repos''
       (noOptions\<lparr>opt_method := Some ''POST'',
          opt_data := Some (JObj
            [(''name'', name),
             (''description'', orDefault description (JStr [])),
             (''private'', orDefault isPrivate (JBool False)),
             (''auto_init'', orDefault autoInit (JBool True))])\<rparr>)
       userId"

definition contentsEndpoint :: "env \<Rightarrow> js \<Rightarrow> js \<Rightarrow> js \<Rightarrow> exn + string" where
  "contentsEndpoint E owner repo path =
     render E [T ''/repos/'', V (Inr owner), T ''/'', V (Inr repo), T ''/contents/'', V (Inr path)]"

definition createOrUpdateFile ::
  "env \<Rightarrow> js \<Rightarrow> js \<Rightarrow> js \<Rightarrow> js \<Rightarrow> string \<Rightarrow> string \<Rightarrow> js prog" where
  "createOrUpdateFile E owner repo path content commitMessage userId =
     andThen
       (try_catch
          (andThen (lift (contentsEndpoint E owner repo path)) (\<lambda>endpoint.
           andThen (githubAPI E endpoint noOptions userId) (\<lambda>existing.
           lift (getProp existing ''sha''))))
          (\<lambda>error. ret JNull))
       (\<lambda>sha.
        andThen (lift (Buffer_base64 E content)) (\<lambda>encoded.
        andThen (lift (contentsEndpoint E owner repo path)) (\<lambda>endpoint.
        githubAPI E endpoint
          (noOptions\<lparr>opt_method := Some ''PUT'',
             opt_data := Some (JObj
               ([(''message'', JStr commitMessage), (''content'', JStr encoded)]
                @ (if truthy sha then [(''sha'', sha)] else [])))\<rparr>)
          userId)))"

record PushResult =
  path :: js
  pr_success :: bool
  url :: js
  pr_error :: "string option"

text \<open>\<^verbatim>\<open>result.content?.html_url\<close>\<close>

definition contentHtmlUrl :: "js \<Rightarrow> exn + js" where
  "contentHtmlUrl result =
     bindE (getProp result ''content'')
       (\<lambda>content. if nullish content then Inr JUndefined else getProp content ''html_url'')"

text \<open>
  The body of the loop of \<open>pushProject\<close> for one file: the \<^verbatim>\<open>try\<close> block that writes the
  file and the \<^verbatim>\<open>catch\<close> block that records the failure.
\<close>

definition pushFile ::
  "env \<Rightarrow> js \<Rightarrow> js \<Rightarrow> js \<Rightarrow> string \<Rightarrow> string \<Rightarrow> PushResult prog" where
  "pushFile E owner repo file commitMessage userId =
     try_catch
       (andThen (lift (render E [T ''   '', V (getProp file ''path'')])) (\<lambda>logged.
        andThen (lift (getProp file ''path'')) (\<lambda>filePath.
        andThen (lift (getProp file ''content'')) (\<lambda>fileContent.
        andThen (createOrUpdateFile E owner repo filePath fileContent commitMessage userId)
          (\<lambda>result.
        andThen (lift (contentHtmlUrl result)) (\<lambda>htmlUrl.
        ret \<lparr>path = filePath, pr_success = True, url = htmlUrl, pr_error = None\<rparr>))))))
       (\<lambda>error.
        andThen (lift (render E [T ''   Failed: '', V (getProp file ''path''),
                                 T ('' - '' @ exn_message error)])) (\<lambda>logged.
        andThen (lift (getProp file ''path'')) (\<lambda>filePath.
        ret \<lparr>path = filePath, pr_success = False, url = JUndefined,
             pr_error = Some (exn_message error)\<rparr>)))"

fun pushLoop ::
  "env \<Rightarrow> js \<Rightarrow> js \<Rightarrow> js list \<Rightarrow> string \<Rightarrow> string \<Rightarrow> PushResult list
   \<Rightarrow> PushResult list prog" where
  "pushLoop E owner repo [] commitMessage userId results = ret results"
| "pushLoop E owner repo (file # files) commitMessage userId results =
     andThen (pushFile E owner repo file commitMessage userId)
       (\<lambda>r. pushLoop E owner repo files commitMessage userId (results @ [r]))"

definition pushProject ::
  "env \<Rightarrow> js \<Rightarrow> js \<Rightarrow> js \<Rightarrow> string \<Rightarrow> string \<Rightarrow> PushResult list prog" where
  "pushProject E owner repo files commitMessage userId =
     andThen (lift (render E [T ''Pushing '', V (getProp files ''length''), T '' files to '',
                              V (Inr owner), T ''/'', V (Inr repo), T ''...''])) (\<lambda>logged.
     andThen (lift (iterate files ''files'')) (\<lambda>fileList.
     pushLoop E owner repo fileList commitMessage userId []))"

definition starRepo :: "env \<Rightarrow> js \<Rightarrow> js \<Rightarrow> string \<Rightarrow> js prog" where
  "starRepo E owner repo userId =
     andThen (lift (render E [T ''/user/starred/'', V (Inr owner), T ''/'', V (Inr repo)]))
       (\<lambda>endpoint.
     andThen (githubAPI E endpoint (noOptions\<lparr>opt_method := Some ''PUT''\<rparr>) userId) (\<lambda>response.
     andThen (lift (render E [V (Inr owner), T ''/'', V (Inr repo)])) (\<lambda>fullName.
     ret (JObj [(''starred'', JBool True), (''repo'', JStr fullName)]))))"

definition createIssue :: "env \<Rightarrow> js \<Rightarrow> js \<Rightarrow> js \<Rightarrow> js \<Rightarrow> js \<Rightarrow> string \<Rightarrow> js prog" where
  "createIssue E owner repo title body labels userId =
     andThen (lift (render E [T ''/repos/'', V (Inr owner), T ''/'', V (Inr repo), T ''/issues'']))
       (\<lambda>endpoint.
     githubAPI E endpoint
       (noOptions\<lparr>opt_method := Some ''POST'',
          opt_data := Some (JObj [(''title'', title), (''body'', orDefault body (JStr [])),
                                  (''labels'', orDefault labels (JArr []))])\<rparr>)
       userId)"

definition listIssues :: "env \<Rightarrow> js \<Rightarrow> js \<Rightarrow> string \<Rightarrow> js prog" where
  "listIssues E owner repo userId =
     andThen (lift (render E [T ''/repos/'', V (Inr owner), T ''/'', V (Inr repo), T ''/issues'']))
       (\<lambda>endpoint.
     githubAPI E endpoint
       (noOptions\<lparr>opt_params := Some [(''per_page'', JNum 10), (''state'', JStr ''open'')]\<rparr>)
       userId)"

definition createPullRequest ::
  "env \<Rightarrow> js \<Rightarrow> js \<Rightarrow> js \<Rightarrow> js \<Rightarrow> js \<Rightarrow> js \<Rightarrow> string \<Rightarrow> js prog" where
  "createPullRequest E owner repo title head base body userId =
     andThen (lift (render E [T ''/repos/'', V (Inr owner), T ''/'', V (Inr repo), T ''/pulls'']))
       (\<lambda>endpoint.
     githubAPI E endpoint
       (noOptions\<lparr>opt_method := Some ''POST'',
          opt_data := Some (JObj [(''title'', title), (''head'', head),
                                  (''base'', orDefault base (JStr ''main'')),
                                  (''body'', orDefault body (JStr []))])\<rparr>)
       userId)"

definition getRepo :: "env \<Rightarrow> js \<Rightarrow> js \<Rightarrow> string \<Rightarrow> js prog" where
  "getRepo E owner repo userId =
     andThen (lift (render E [T ''/repos/'', V (Inr owner), T ''/'', V (Inr repo)])) (\<lambda>endpoint.
     githubAPI E endpoint noOptions userId)"

subsection \<open>Public calls, without a credential\<close>

definition publicHeaders :: "(string \<times> js) list" where
  "publicHeaders =
     [(''Accept'', JStr ''application/vnd.github.v3+json''),
      (''User-Agent'', JStr ''AgenticWorkflow-App'')]"

definition getPublicUser :: "env \<Rightarrow> js \<Rightarrow> js prog" where
  "getPublicUser E username =
     andThen (lift (render E [T ''https://api.github.com/users/'', V (Inr username)])) (\<lambda>address.
     axiosCall E \<lparr>req_method = ''GET'', req_url = address, req_headers = publicHeaders,
                  req_data = JUndefined, req_params = []\<rparr>)"

definition listPublicRepos :: "env \<Rightarrow> js \<Rightarrow> js \<Rightarrow> js \<Rightarrow> js prog" where
  "listPublicRepos E username sortBy per_page =
     andThen (lift (render E [T ''https://api.github.com/users/'', V (Inr username), T ''/repos'']))
       (\<lambda>address.
     axiosCall E \<lparr>req_method = ''GET'', req_url = address, req_headers = publicHeaders,
                  req_data = JUndefined,
                  req_params = [(''sort'', orDefault sortBy (JStr ''updated'')),
                                (''per_page'', orDefault per_page (JNum 30)),
                                (''type'', JStr ''owner'')]\<rparr>)"

section \<open>Literals beyond ASCII\<close>

definition emdash :: string where "emdash = [CHR 0xE2, CHR 0x80, CHR 0x94]"
definition endash :: string where "endash = [CHR 0xE2, CHR 0x80, CHR 0x93]"
definition rarrow :: string where "rarrow = [CHR 0xE2, CHR 0x86, CHR 0x92]"
definition e_link :: string where "e_link = [CHR 0xF0, CHR 0x9F, CHR 0x94, CHR 0x97]"
definition e_bust :: string where "e_bust = [CHR 0xF0, CHR 0x9F, CHR 0x91, CHR 0xA4]"
definition e_package :: string where "e_package = [CHR 0xF0, CHR 0x9F, CHR 0x93, CHR 0xA6]"
definition e_people :: string where "e_people = [CHR 0xF0, CHR 0x9F, CHR 0x91, CHR 0xA5]"
definition e_lock :: string where "e_lock = [CHR 0xF0, CHR 0x9F, CHR 0x94, CHR 0x92]"
definition e_globe :: string where "e_globe = [CHR 0xF0, CHR 0x9F, CHR 0x8C, CHR 0x90]"
definition e_star :: string where "e_star = [CHR 0xE2, CHR 0xAD, CHR 0x90]"
definition e_fork :: string where "e_fork = [CHR 0xF0, CHR 0x9F, CHR 0x8D, CHR 0xB4]"
definition e_abc :: string where "e_abc = [CHR 0xF0, CHR 0x9F, CHR 0x94, CHR 0xA4]"
definition e_memo :: string where "e_memo = [CHR 0xF0, CHR 0x9F, CHR 0x93, CHR 0x9D]"
definition e_footprints :: string where "e_footprints = [CHR 0xF0, CHR 0x9F, CHR 0x91, CHR 0xA3]"
definition e_pin :: string where "e_pin = [CHR 0xF0, CHR 0x9F, CHR 0x93, CHR 0x8D]"
definition e_office :: string where "e_office = [CHR 0xF0, CHR 0x9F, CHR 0x8F, CHR 0xA2]"
definition e_check :: string where "e_check = [CHR 0xE2, CHR 0x9C, CHR 0x85]"
definition e_antenna :: string where "e_antenna = [CHR 0xF0, CHR 0x9F, CHR 0x93, CHR 0xA1]"
definition e_clipboard :: string where "e_clipboard = [CHR 0xF0, CHR 0x9F, CHR 0x93, CHR 0x8B]"
definition e_eye :: string where
  "e_eye = [CHR 0xF0, CHR 0x9F, CHR 0x91, CHR 0x81, CHR 0xEF, CHR 0xB8, CHR 0x8F]"
definition e_shuffle :: string where "e_shuffle = [CHR 0xF0, CHR 0x9F, CHR 0x94, CHR 0x80]"
definition e_pushpin :: string where "e_pushpin = [CHR 0xF0, CHR 0x9F, CHR 0x93, CHR 0x8C]"
definition e_outbox :: string where "e_outbox = [CHR 0xF0, CHR 0x9F, CHR 0x93, CHR 0xA4]"
definition e_cross :: string where "e_cross = [CHR 0xE2, CHR 0x9D, CHR 0x8C]"

section \<open>Prompt preparation and response clean-up\<close>

text \<open>
  \<^verbatim>\<open>String.prototype.replace\<close> with a regular expression that has the flag \<^verbatim>\<open>g\<close> and a
  replacement without patterns: every match, from left to right, gives way to \<open>rep\<close>.
\<close>

function rx_replace_all :: "bool \<Rightarrow> rx \<Rightarrow> string \<Rightarrow> char option \<Rightarrow> string \<Rightarrow> string" where
  "rx_replace_all ci r rep prev s =
     (case rx_match ci r prev s of
        [] \<Rightarrow> (case s of [] \<Rightarrow> [] | c # cs \<Rightarrow> c # rx_replace_all ci r rep (Some c) cs)
      | n # _ \<Rightarrow>
          if 0 < n \<and> n \<le> length s
          then rep @ rx_replace_all ci r rep (prevAfter prev s n) (drop n s)
          else rep @ (case s of [] \<Rightarrow> [] | c # cs \<Rightarrow> c # rx_replace_all ci r rep (Some c) cs))"
  by pat_completeness auto
termination
  by (relation "measure (\<lambda>(ci, r, rep, prev, s). length s)") auto

declare rx_replace_all.simps [simp del]

text \<open>\<^verbatim>\<open>userPrompt.replace(/"/g, '\\"')\<close>\<close>

definition escapeQuotes :: "string \<Rightarrow> string" where
  "escapeQuotes userPrompt = rx_replace_all False (Lit dq) (bs @ dq) None userPrompt"

text \<open>
  \<^verbatim>\<open>String.prototype.trim\<close>: the white space and the line terminators at both ends are
  removed, which are the characters of \<open>spaces\<close>. \<open>stripStart\<close> removes the characters of
  \<open>encs\<close> at the start; the end of a text is the start of the reversed text.
\<close>

function stripStart :: "string list \<Rightarrow> string \<Rightarrow> string" where
  "stripStart encs [] = []"
| "stripStart encs (c # cs) =
     (if 0 < spaceAt encs (c # cs) \<and> spaceAt encs (c # cs) \<le> length (c # cs)
      then stripStart encs (drop (spaceAt encs (c # cs)) (c # cs))
      else c # cs)"
  by pat_completeness auto
termination
  by (relation "measure (\<lambda>(encs, s). length s)") auto

declare stripStart.simps [simp del]

definition trim :: "string \<Rightarrow> string" where
  "trim s = rev (stripStart (map rev spaces) (rev (stripStart spaces s)))"

text \<open>The clean-up of a model response: the code fences of Markdown are removed.\<close>

definition stripFences :: "string \<Rightarrow> string" where
  "stripFences txt =
     trim (rx_replace_all False (Seq (Lit (bq @ bq @ bq)) (Opt (Lit nl))) [] None
            (rx_replace_all False (Seq (Lit (bq @ bq @ bq @ ''json'')) (Opt (Lit nl))) [] None
               txt))"

section \<open>githubAgent: the dispatcher of repository actions\<close>

definition MODEL_CHAIN :: "string list" where
  "MODEL_CHAIN = [''gemini-2.5-flash'', ''gemini-2.5-flash-lite'', ''gemini-3-flash'']"

record GitHubAgentResult =
  success :: bool
  action :: "js option"
  summary :: "string option"
  rawData :: "js option"
  error :: "string option"
  needsAuth :: "bool option"
  authUrl :: "string option"
  message :: "string option"

definition emptyResult :: GitHubAgentResult where
  "emptyResult =
     \<lparr>success = False, action = None, summary = None, rawData = None, error = None,
      needsAuth = None, authUrl = None, message = None\<rparr>"

text \<open>\<open>callGemini\<close>: the loop over the model chain, from the models \<open>chain\<close> on.\<close>

fun callGeminiLoop :: "env \<Rightarrow> string \<Rightarrow> string list \<Rightarrow> string prog" where
  "callGeminiLoop E prompt [] w = throw (Error ''All Gemini models failed'') w"
| "callGeminiLoop E prompt (model # rest) w =
     (case generate E model prompt w of
        (Inr txt, w') \<Rightarrow> (Inr txt, w')
      | (Inl err, w') \<Rightarrow> callGeminiLoop E prompt rest w')"

definition callGemini :: "env \<Rightarrow> string \<Rightarrow> string prog" where
  "callGemini E prompt = callGeminiLoop E prompt MODEL_CHAIN"

definition PUBLIC_ACTIONS :: "string list" where
  "PUBLIC_ACTIONS = [''list_user_repos'', ''get_user_profile'']"

definition githubParsePrompt :: "string \<Rightarrow> string" where
  \<open>githubParsePrompt userPrompt = concat
    [''You are a GitHub assistant. Parse the user'', sq, ''s request into JSON.'', nl, nl,
     ''Actions you can perform:'', nl,
     ''- star_repo: Star a repository (needs owner, repo)'', nl,
     ''- create_issue: Create an issue (needs owner, repo, title, body)'', nl,
     ''- create_pr: Create PR (needs owner, repo, title, head, base)'', nl,
     ''- list_repos: List MY (authenticated user'', sq, ''s) repos (no params needed)'',
     nl, ''- list_user_repos: List ANOTHER user'', sq,
     ''s public repos (needs username). Use this when user provides a GitHub '',
     ''profile link or mentions another person'', sq, ''s username.'', nl,
     ''- get_user_profile: Get ANOTHER user'', sq,
     ''s public GitHub profile (needs username). Use this when user asks about '',
     ''someone else'', sq, ''s profile.'', nl,
     ''- get_repo: Get repo info (needs owner, repo)'', nl,
     ''- list_issues: List issues (needs owner, repo)'', nl,
     ''- delete_repo: Delete a repo (needs owner, repo) '', emdash,
     '' only use if user explicitly says "delete" and understands the '', ''consequences'',
     nl, ''- create_repo: Create a new repo (needs name, description, private)'', nl,
     ''- push_project: Push/create files in a repo (needs owner, repo, files '',
     ''as array of {path, content})'', nl, ''- get_profile: Get MY (authenticated user'',
     sq, ''s) GitHub profile (no params needed)'', nl, nl,
     ''IMPORTANT: If user provides a GitHub URL like '',
     ''https://github.com/USERNAME, extract the USERNAME. If they ask about '',
     ''another person'', sq,
     ''s repos/profile, use list_user_repos or get_user_profile (these don'', sq,
     ''t need auth).'', nl, nl, ''Respond ONLY with JSON, no markdown:'', nl,
     ''{"action":"action_name","params":{"owner":"","repo":"","title":"","body"'',
     '':"","name":"","description":"","private":false,"head":"","base":"main","'',
     ''files":[],"username":""}}'', nl, nl, ''User: "'', escapeQuotes userPrompt, ''"'']\<close>

text \<open>
  Step 1 of \<open>runGitHubAgent\<close>, the \<^verbatim>\<open>try\<close> block that asks the model and parses its answer
  (the logging of \<^verbatim>\<open>intent.action\<close> reads the property and converts it).
\<close>

definition parseIntent :: "env \<Rightarrow> string \<Rightarrow> js prog" where
  "parseIntent E userPrompt =
     andThen (callGemini E (githubParsePrompt userPrompt)) (\<lambda>txt.
     andThen (lift (JSON_parse E (stripFences txt))) (\<lambda>intent.
     andThen (lift (render E [T ''Action: '', V (getProp intent ''action'')])) (\<lambda>logged.
     ret intent)))"

text \<open>
  What a \<^verbatim>\<open>case\<close> of the \<^verbatim>\<open>switch\<close> ends with: the \<^verbatim>\<open>return\<close> of a result, or \<^verbatim>\<open>break\<close>
  with the provider's result and the summary.
\<close>

datatype caseEnd = Return GitHubAgentResult | Break js string

text \<open>\<^verbatim>\<open>const { k, ... } = intent.params\<close>: the object the properties are taken from.\<close>

definition intentParams :: "js \<Rightarrow> string \<Rightarrow> exn + js" where
  "intentParams intent k =
     bindE (getProp intent ''params'') (\<lambda>ps. destructure ps ''intent.params'' k)"

text \<open>\<^verbatim>\<open>c ? a : b\<close> inside a template, on the value of a property.\<close>

definition pick :: "exn + js \<Rightarrow> string \<Rightarrow> string \<Rightarrow> exn + js" where
  "pick c a b = bindE c (\<lambda>v. Inr (JStr (if truthy v then a else b)))"

text \<open>\<^verbatim>\<open>heading + list.map((item, i) => line).join('\n')\<close>\<close>

definition headedList ::
  "exn + string \<Rightarrow> js \<Rightarrow> (nat \<times> js \<Rightarrow> exn + string) \<Rightarrow> exn + string" where
  "headedList heading result line =
     bindE heading (\<lambda>h.
     bindE (asArray result ''result'' ''map'') (\<lambda>items.
     bindE (mapE line (enumerate 0 items)) (\<lambda>lines.
     Inr (h @ join nl lines))))"

definition case_get_profile :: "env \<Rightarrow> string \<Rightarrow> caseEnd prog" where
  "case_get_profile E userId =
     andThen (getUser E userId) (\<lambda>result.
     andThen (lift (render E
       [T (e_bust @ '' **''), V (getProp result ''login''), T ''** ('',
        V (orElse (getProp result ''name'') (JStr ''No name'')), T ('')'' @ nl),
        T (''   '' @ e_package @ '' ''), V (getProp result ''public_repos''),
        T ('' repos | '' @ e_people @ '' ''), V (getProp result ''followers''),
        T ('' followers'' @ nl),
        T (''   '' @ e_link @ '' ''), V (getProp result ''html_url'')])) (\<lambda>txt.
     ret (Break result txt)))"

definition case_list_repos :: "env \<Rightarrow> string \<Rightarrow> caseEnd prog" where
  "case_list_repos E userId =
     andThen (listRepos E userId JUndefined (JNum 10)) (\<lambda>result.
     andThen (lift (headedList
       (render E [T (e_package @ '' Your repositories (latest ''),
                  V (getProp result ''length''), T (''):'' @ nl)])
       result
       (\<lambda>(i, r). render E
          [T ''   '', N (i + 1), T ''. **'', V (getProp r ''name''), T ''** '',
           V (pick (getProp r ''private'') e_lock e_globe), T ('' '' @ emdash @ '' ''),
           V (orElse (getProp r ''description'') (JStr ''No description'')), T nl,
           T (''      '' @ e_star @ '' ''), V (getProp r ''stargazers_count''),
           T ('' | '' @ e_fork @ '' ''), V (getProp r ''forks_count''),
           T ('' | '' @ e_link @ '' ''), V (getProp r ''html_url'')]))) (\<lambda>txt.
     ret (Break result txt)))"

definition case_list_user_repos :: "env \<Rightarrow> js \<Rightarrow> caseEnd prog" where
  "case_list_user_repos E intent =
     andThen (lift (intentParams intent ''username'')) (\<lambda>ps.
     andThen (lift (getProp ps ''username'')) (\<lambda>username.
     if \<not> truthy username
     then ret (Return (emptyResult\<lparr>error :=
            Some ''Username is required. Provide a GitHub username or profile URL.''\<rparr>))
     else
       andThen (listPublicRepos E username JUndefined JUndefined) (\<lambda>result.
       andThen (lift (bindE (getProp result ''length'') (\<lambda>len.
         if len = JNum 0
         then render E [T (e_package @ '' **''), V (Inr username),
                        T ''** has no public repositories.'']
         else headedList
           (render E [T (e_package @ '' Public repos of **''), V (Inr username), T ''** ('',
                      V (getProp result ''length''), T (''):'' @ nl)])
           result
           (\<lambda>(i, r). render E
              [T ''   '', N (i + 1), T ''. **'', V (getProp r ''name''),
               T (''** '' @ e_globe @ '' '' @ emdash @ '' ''),
               V (orElse (getProp r ''description'') (JStr ''No description'')), T nl,
               T (''      '' @ e_star @ '' ''), V (getProp r ''stargazers_count''),
               T ('' | '' @ e_fork @ '' ''), V (getProp r ''forks_count''),
               T ('' | '' @ e_abc @ '' ''), V (orElse (getProp r ''language'') (JStr ''N/A'')),
               T ('' | '' @ e_link @ '' ''), V (getProp r ''html_url'')])))) (\<lambda>txt.
       ret (Break result txt)))))"

definition case_get_user_profile :: "env \<Rightarrow> js \<Rightarrow> caseEnd prog" where
  "case_get_user_profile E intent =
     andThen (lift (intentParams intent ''username'')) (\<lambda>ps.
     andThen (lift (getProp ps ''username'')) (\<lambda>username.
     if \<not> truthy username
     then ret (Return (emptyResult\<lparr>error := Some ''Username is required.''\<rparr>))
     else
       andThen (getPublicUser E username) (\<lambda>result.
       andThen (lift (render E
         [T (e_bust @ '' **''), V (getProp result ''login''), T ''** ('',
          V (orElse (getProp result ''name'') (JStr ''No name'')), T ('')'' @ nl),
          T (''   '' @ e_memo @ '' ''), V (orElse (getProp result ''bio'') (JStr ''No bio'')), T nl,
          T (''   '' @ e_package @ '' ''), V (getProp result ''public_repos''),
          T ('' public repos | '' @ e_people @ '' ''), V (getProp result ''followers''),
          T ('' followers | '' @ e_footprints @ '' ''), V (getProp result ''following''),
          T ('' following'' @ nl),
          T (''   '' @ e_pin @ '' ''), V (orElse (getProp result ''location'') (JStr ''N/A'')),
          T ('' | '' @ e_office @ '' ''), V (orElse (getProp result ''company'') (JStr ''N/A'')), T nl,
          T (''   '' @ e_link @ '' ''), V (getProp result ''html_url'')])) (\<lambda>txt.
       ret (Break result txt)))))"

definition case_create_repo :: "env \<Rightarrow> js \<Rightarrow> string \<Rightarrow> caseEnd prog" where
  "case_create_repo E intent userId =
     andThen (lift (intentParams intent ''name'')) (\<lambda>ps.
     andThen (lift (getProp ps ''name'')) (\<lambda>name.
     andThen (lift (getProp ps ''description'')) (\<lambda>description.
     andThen (lift (getProp ps ''private'')) (\<lambda>isPrivate.
     andThen (createRepo E name (orDefault description (JStr []))
                (orDefault isPrivate (JBool False)) JUndefined userId) (\<lambda>result.
     andThen (lift (render E
       [T (e_check @ '' Repository created!'' @ nl),
        T (''   '' @ e_package @ '' **''), V (getProp result ''full_name''), T ''** '',
        V (pick (getProp result ''private'') (e_lock @ '' Private'') (e_globe @ '' Public'')), T nl,
        T (''   '' @ e_link @ '' ''), V (getProp result ''html_url''), T nl,
        T (''   '' @ e_antenna @ '' Clone: ''), V (getProp result ''clone_url'')])) (\<lambda>txt.
     ret (Break result txt)))))))"

definition case_star_repo :: "env \<Rightarrow> js \<Rightarrow> string \<Rightarrow> caseEnd prog" where
  "case_star_repo E intent userId =
     andThen (lift (intentParams intent ''owner'')) (\<lambda>ps.
     andThen (lift (getProp ps ''owner'')) (\<lambda>owner.
     andThen (lift (getProp ps ''repo'')) (\<lambda>repo.
     andThen (starRepo E owner repo userId) (\<lambda>result.
     andThen (lift (render E
       [T (e_star @ '' Done! Starred **''), V (Inr owner), T ''/'', V (Inr repo), T ''**''])) (\<lambda>txt.
     ret (Break result txt))))))"

definition case_create_issue :: "env \<Rightarrow> js \<Rightarrow> string \<Rightarrow> caseEnd prog" where
  "case_create_issue E intent userId =
     andThen (lift (intentParams intent ''owner'')) (\<lambda>ps.
     andThen (lift (getProp ps ''owner'')) (\<lambda>owner.
     andThen (lift (getProp ps ''repo'')) (\<lambda>repo.
     andThen (lift (getProp ps ''title'')) (\<lambda>title.
     andThen (lift (getProp ps ''body'')) (\<lambda>body.
     andThen (createIssue E owner repo title (orDefault body (JStr [])) (JArr []) userId) (\<lambda>result.
     andThen (lift (render E
       [T (e_check @ '' Issue created!'' @ nl),
        T (''   '' @ e_memo @ '' #''), V (getProp result ''number''), T '': **'',
        V (getProp result ''title''), T (''**'' @ nl),
        T (''   '' @ e_link @ '' ''), V (getProp result ''html_url'')])) (\<lambda>txt.
     ret (Break result txt))))))))"

definition case_list_issues :: "env \<Rightarrow> js \<Rightarrow> string \<Rightarrow> caseEnd prog" where
  "case_list_issues E intent userId =
     andThen (lift (intentParams intent ''owner'')) (\<lambda>ps.
     andThen (lift (getProp ps ''owner'')) (\<lambda>owner.
     andThen (lift (getProp ps ''repo'')) (\<lambda>repo.
     andThen (listIssues E owner repo userId) (\<lambda>result.
     andThen (lift (bindE (getProp result ''length'') (\<lambda>len.
       if len = JNum 0
       then render E [T (e_check @ '' No open issues in **''), V (Inr owner), T ''/'',
                      V (Inr repo), T ''**'']
       else headedList
         (render E [T (e_clipboard @ '' Open issues in **''), V (Inr owner), T ''/'',
                    V (Inr repo), T ''** ('', V (getProp result ''length''),
                    T (''):'' @ nl)])
         result
         (\<lambda>(i, iss). render E
            [T ''   '', N (i + 1), T ''. #'', V (getProp iss ''number''),
             T ('' '' @ emdash @ '' **''), V (getProp iss ''title''), T ''** (by '',
             V (bindE (getProp iss ''user'') (\<lambda>u. getProp u ''login'')), T '')''])))) (\<lambda>txt.
     ret (Break result txt))))))"

definition case_get_repo :: "env \<Rightarrow> js \<Rightarrow> string \<Rightarrow> caseEnd prog" where
  "case_get_repo E intent userId =
     andThen (lift (intentParams intent ''owner'')) (\<lambda>ps.
     andThen (lift (getProp ps ''owner'')) (\<lambda>owner.
     andThen (lift (getProp ps ''repo'')) (\<lambda>repo.
     andThen (getRepo E owner repo userId) (\<lambda>result.
     andThen (lift (render E
       [T (e_package @ '' **''), V (getProp result ''full_name''), T (''**'' @ nl),
        T (''   '' @ e_memo @ '' ''),
        V (orElse (getProp result ''description'') (JStr ''No description'')), T nl,
        T (''   '' @ e_star @ '' ''), V (getProp result ''stargazers_count''),
        T ('' | '' @ e_fork @ '' ''), V (getProp result ''forks_count''),
        T ('' | '' @ e_eye @ '' ''), V (getProp result ''watchers_count''), T nl,
        T (''   '' @ e_abc @ '' Language: ''),
        V (orElse (getProp result ''language'') (JStr ''N/A'')), T nl,
        T (''   '' @ e_link @ '' ''), V (getProp result ''html_url'')])) (\<lambda>txt.
     ret (Break result txt))))))"

definition case_create_pr :: "env \<Rightarrow> js \<Rightarrow> string \<Rightarrow> caseEnd prog" where
  "case_create_pr E intent userId =
     andThen (lift (intentParams intent ''owner'')) (\<lambda>ps.
     andThen (lift (getProp ps ''owner'')) (\<lambda>owner.
     andThen (lift (getProp ps ''repo'')) (\<lambda>repo.
     andThen (lift (getProp ps ''title'')) (\<lambda>title.
     andThen (lift (getProp ps ''head'')) (\<lambda>head.
     andThen (lift (getProp ps ''base'')) (\<lambda>base.
     andThen (lift (getProp ps ''body'')) (\<lambda>body.
     andThen (createPullRequest E owner repo title head (orDefault base (JStr ''main''))
                (orDefault body (JStr [])) userId) (\<lambda>result.
     andThen (lift (render E
       [T (e_check @ '' Pull Request created!'' @ nl),
        T (''   '' @ e_shuffle @ '' #''), V (getProp result ''number''), T '': **'',
        V (getProp result ''title''), T (''**'' @ nl),
        T (''   '' @ e_pushpin @ '' ''),
        V (bindE (getProp result ''head'') (\<lambda>h. getProp h ''ref'')), T ('' '' @ rarrow @ '' ''),
        V (bindE (getProp result ''base'') (\<lambda>b. getProp b ''ref'')), T nl,
        T (''   '' @ e_link @ '' ''), V (getProp result ''html_url'')])) (\<lambda>txt.
     ret (Break result txt))))))))))"

text \<open>The array of \<open>PushResult\<close> records as the value that \<^verbatim>\<open>rawData\<close> holds.\<close>

definition pushResultJs :: "PushResult \<Rightarrow> js" where
  "pushResultJs r =
     JObj ([(''path'', path r), (''success'', JBool (pr_success r))]
           @ (case pr_error r of None \<Rightarrow> [(''url'', url r)] | Some e \<Rightarrow> [(''error'', JStr e)]))"

definition pushSummary :: "env \<Rightarrow> js \<Rightarrow> js \<Rightarrow> PushResult list \<Rightarrow> exn + string" where
  "pushSummary E owner repo result =
     bindE (render E
       [T (e_outbox @ '' Pushed ''), N (length (filter pr_success result)), T ''/'',
        N (length result), T '' files to **'', V (Inr owner), T ''/'', V (Inr repo),
        T (''**'' @ nl)]) (\<lambda>heading.
     bindE (mapE (\<lambda>r. render E
              [T ''   '', T (if pr_success r then e_check else e_cross), T '' '', V (Inr (path r))])
            result) (\<lambda>lines.
     Inr (heading @ join nl lines)))"

definition case_push_project :: "env \<Rightarrow> js \<Rightarrow> string \<Rightarrow> caseEnd prog" where
  "case_push_project E intent userId =
     andThen (lift (intentParams intent ''owner'')) (\<lambda>ps.
     andThen (lift (getProp ps ''owner'')) (\<lambda>owner.
     andThen (lift (getProp ps ''repo'')) (\<lambda>repo.
     andThen (lift (getProp ps ''files'')) (\<lambda>files.
     andThen (pushProject E owner repo files ''Push from Agentic Workflow'' userId) (\<lambda>result.
     andThen (lift (pushSummary E owner repo result)) (\<lambda>txt.
     ret (Break (JArr (map pushResultJs result)) txt)))))))"

text \<open>Step 3 of \<open>runGitHubAgent\<close>: the body of the \<^verbatim>\<open>try\<close> block around the \<^verbatim>\<open>switch\<close>.\<close>

definition execAction :: "env \<Rightarrow> js \<Rightarrow> string \<Rightarrow> GitHubAgentResult prog" where
  "execAction E intent userId =
     andThen (lift (getProp intent ''action'')) (\<lambda>act.
     andThen
       (if act = JStr ''get_profile'' then case_get_profile E userId
        else if act = JStr ''list_repos'' then case_list_repos E userId
        else if act = JStr ''list_user_repos'' then case_list_user_repos E intent
        else if act = JStr ''get_user_profile'' then case_get_user_profile E intent
        else if act = JStr ''create_repo'' then case_create_repo E intent userId
        else if act = JStr ''star_repo'' then case_star_repo E intent userId
        else if act = JStr ''create_issue'' then case_create_issue E intent userId
        else if act = JStr ''list_issues'' then case_list_issues E intent userId
        else if act = JStr ''get_repo'' then case_get_repo E intent userId
        else if act = JStr ''create_pr'' then case_create_pr E intent userId
        else if act = JStr ''push_project'' then case_push_project E intent userId
        else
          andThen (lift (render E
            [T ''Unknown action: '', V (Inr act),
             T ''. Try: list repos, create repo, star repo, create issue, etc.''])) (\<lambda>msg.
          ret (Return (emptyResult\<lparr>error := Some msg\<rparr>))))
       (\<lambda>ended. case ended of
          Return r \<Rightarrow> ret r
        | Break result txt \<Rightarrow>
            ret (emptyResult\<lparr>success := True, action := Some act, summary := Some txt,
                              rawData := Some result\<rparr>)))"

definition needsAuthResult :: "string \<Rightarrow> string \<Rightarrow> GitHubAgentResult" where
  "needsAuthResult link msg =
     emptyResult\<lparr>needsAuth := Some True, authUrl := Some link, message := Some msg\<rparr>"

definition authRequiredMessage :: "string \<Rightarrow> string" where
  "authRequiredMessage link =
     ''This action requires GitHub authorization.'' @ nl @ e_link @ '' '' @ link"

definition sessionExpiredMessage :: "string \<Rightarrow> string" where
  "sessionExpiredMessage link =
     ''Session expired. Please reconnect:'' @ nl @ e_link @ '' '' @ link"

definition runGitHubAgent :: "env \<Rightarrow> string \<Rightarrow> string \<Rightarrow> GitHubAgentResult prog" where
  "runGitHubAgent E userPrompt userId w =
     (case parseIntent E userPrompt w of
        (Inl err, w1) \<Rightarrow>
          ret (emptyResult\<lparr>error :=
                 Some (''Failed to understand request: '' @ exn_message err)\<rparr>) w1
      | (Inr intent, w1) \<Rightarrow>
          andThen (lift (getProp intent ''action'')) (\<lambda>act w2.
            if act \<notin> set (map JStr PUBLIC_ACTIONS) \<and> \<not> isConnected w2 userId
            then ret (needsAuthResult (getAuthorizationUrl E userId)
                        (authRequiredMessage (getAuthorizationUrl E userId))) w2
            else
              try_catch (execAction E intent userId)
                (\<lambda>err w3.
                   if str_includes (exn_message err) ''token expired''
                      \<or> str_includes (exn_message err) ''not connected''
                   then ret (needsAuthResult (getAuthorizationUrl E userId)
                               (sessionExpiredMessage (getAuthorizationUrl E userId))) w3
                   else ret (emptyResult\<lparr>error := Some (exn_message err)\<rparr>) w3)
                w2)
            w1)"

section \<open>intentAgent: the classifier\<close>

record ParsedIntent =
  pi_success :: bool
  platform :: js
  urls :: js
  pi_action :: js
  userQuery :: js
  pi_error :: "string option"
  fallback :: "bool option"

definition intentPrompt :: "string \<Rightarrow> string" where
  \<open>intentPrompt userPrompt = concat
    [''You are an intent-parsing assistant for a multi-platform AI agent that '',
     ''supports Instagram and GitHub.'', nl, nl,
     ''The user will give you a natural language request. Your job is to '', ''extract:'',
     nl, nl, ''1. **platform** '', endash,
     '' One of: "instagram", "github", "crypto", "unknown".'', nl,
     ''   - If user mentions GitHub, repos, repository, issues, PRs, pull '',
     ''requests, starring, fork, commit, push, code '', rarrow, '' "github"'', nl,
     ''   - If user mentions Instagram, posts, reels, stories, or includes '',
     ''instagram.com links '', rarrow, '' "instagram"'', nl,
     ''   - If user mentions crypto, bitcoin, ethereum, coin, token, price, '',
     ''market cap,'', nl, ''     BTC, ETH, SOL, or any other cryptocurrency '', rarrow,
     '' "crypto"'', nl, nl, ''2. **urls** '', endash,
     '' Any Instagram URLs found in the prompt (array of strings). Only look '',
     ''for instagram.com links.'', nl, ''3. **action** '', endash,
     '' For Instagram: "analyze", "quick", "compare", "custom". For GitHub: '',
     ''"github_action". For Crypto: "crypto_action".'', nl, ''4. **userQuery** '', endash,
     '' The user'', sq,
     ''s full request as-is (string). Do NOT leave empty for GitHub actions.'', nl, nl,
     ''Respond ONLY with valid JSON, no markdown, no explanation. Examples:'', nl,
     ''{"platform":"instagram","urls":["https://www.instagram.com/p/ABC123/"],"'',
     ''action":"analyze","userQuery":""}'', nl,
     ''{"platform":"github","urls":[],"action":"github_action","userQuery":"sta'',
     ''r the repo facebook/react"}'', nl,
     ''{"platform":"github","urls":[],"action":"github_action","userQuery":"lis'',
     ''t all my repos"}'', nl, nl, ''User prompt: "'', escapeQuotes userPrompt, ''"'']\<close>

text \<open>\<^verbatim>\<open>/https?:\/\/(?:www\.)?instagram\.com\/[^\s"'<>]+/gi\<close>\<close>

definition instaRegex :: rx where
  "instaRegex =
     Seqs [Lit ''http'', Opt (Lit ''s''), Lit ''://'', Opt (Lit ''www.''), Lit ''instagram.com/'',
           Plus (NoSpaceNor (dq @ sq @ ''<>''))]"

text \<open>
  \<^verbatim>\<open>/\b(github|repo|repository|repos|repositories|issue|issues|pull\s*request|PR|star|fork|commit|push|branch)\b/i\<close>
\<close>

definition githubKeywords :: rx where
  "githubKeywords =
     Seqs [WordB,
           Alts [Lit ''github'', Lit ''repo'', Lit ''repository'', Lit ''repos'',
                 Lit ''repositories'', Lit ''issue'', Lit ''issues'',
                 Seqs [Lit ''pull'', Star Space, Lit ''request''],
                 Lit ''PR'', Lit ''star'', Lit ''fork'', Lit ''commit'', Lit ''push'',
                 Lit ''branch''],
           WordB]"

text \<open>
  \<^verbatim>\<open>/\b(crypto|bitcoin|btc|ethereum|eth|solana|sol|coin|token|price|market\s*cap|dogecoin|doge|xrp|cardano|ada)\b/i\<close>
\<close>

definition cryptoKeywords :: rx where
  "cryptoKeywords =
     Seqs [WordB,
           Alts [Lit ''crypto'', Lit ''bitcoin'', Lit ''btc'', Lit ''ethereum'', Lit ''eth'',
                 Lit ''solana'', Lit ''sol'', Lit ''coin'', Lit ''token'', Lit ''price'',
                 Seqs [Lit ''market'', Star Space, Lit ''cap''],
                 Lit ''dogecoin'', Lit ''doge'', Lit ''xrp'', Lit ''cardano'', Lit ''ada''],
           WordB]"

text \<open>
  The \<^verbatim>\<open>try\<close> block of \<open>parseUserIntent\<close>: the generative path. Its logging reads and
  converts properties of the parsed value, and so can raise.
\<close>

definition classifyPrimary :: "env \<Rightarrow> string \<Rightarrow> ParsedIntent prog" where
  "classifyPrimary E userPrompt =
     andThen (callGeminiWithRetry E (intentPrompt userPrompt)) (\<lambda>response.
     andThen (lift (JSON_parse E (stripFences (gr_text response)))) (\<lambda>parsed.
     andThen (lift (render E [T ''Platform: '', V (getProp parsed ''platform'')])) (\<lambda>logged1.
     andThen (lift (bindE (getProp parsed ''urls'') (\<lambda>found.
                if nullish found then Inr []
                else bindE (getProp found ''length'') (\<lambda>len.
                  if truthy len then render E [T ''URLs found: '', V (getProp found ''length'')]
                  else Inr [])))) (\<lambda>logged2.
     andThen (lift (render E [T ''Action: '', V (getProp parsed ''action'')])) (\<lambda>logged3.
     andThen (lift (bindE (getProp parsed ''userQuery'') (\<lambda>query.
                if truthy query then render E [T ''Query: '', V (Inr query)] else Inr []))) (\<lambda>logged4.
     andThen (lift (getProp parsed ''platform'')) (\<lambda>parsedPlatform.
     andThen (lift (getProp parsed ''urls'')) (\<lambda>parsedUrls.
     andThen (lift (getProp parsed ''action'')) (\<lambda>parsedAction.
     andThen (lift (getProp parsed ''userQuery'')) (\<lambda>parsedQuery.
     ret \<lparr>pi_success = True,
          platform = js_or parsedPlatform (JStr ''unknown''),
          urls = js_or parsedUrls (JArr []),
          pi_action = js_or parsedAction (JStr ''analyze''),
          userQuery = js_or parsedQuery (JStr userPrompt),
          pi_error = None,
          fallback = None\<rparr>))))))))))"

text \<open>The \<^verbatim>\<open>catch\<close> block of \<open>parseUserIntent\<close>: the fallback by regular expressions.\<close>

definition classifyFallback :: "string \<Rightarrow> exn \<Rightarrow> ParsedIntent" where
  "classifyFallback userPrompt err =
     (let instaUrls = rx_match_all True instaRegex None userPrompt;
          isGitHub = rx_test True githubKeywords None userPrompt;
          isCrypto = rx_test True cryptoKeywords None userPrompt
      in if length instaUrls > 0 then
           \<lparr>pi_success = True, platform = JStr ''instagram'', urls = JArr (map JStr instaUrls),
            pi_action = JStr ''analyze'', userQuery = JStr userPrompt, pi_error = None,
            fallback = Some True\<rparr>
         else if isGitHub then
           \<lparr>pi_success = True, platform = JStr ''github'', urls = JArr [],
            pi_action = JStr ''github_action'', userQuery = JStr userPrompt, pi_error = None,
            fallback = Some True\<rparr>
         else if isCrypto then
           \<lparr>pi_success = True, platform = JStr ''crypto'', urls = JArr [],
            pi_action = JStr ''crypto_action'', userQuery = JStr userPrompt, pi_error = None,
            fallback = Some True\<rparr>
         else
           \<lparr>pi_success = False, platform = JStr ''unknown'', urls = JArr [],
            pi_action = JNull, userQuery = JStr userPrompt,
            pi_error = Some (exn_message err), fallback = None\<rparr>)"

definition parseUserIntent :: "env \<Rightarrow> string \<Rightarrow> ParsedIntent prog" where
  "parseUserIntent E userPrompt =
     try_catch (classifyPrimary E userPrompt) (\<lambda>err. ret (classifyFallback userPrompt err))"

section \<open>cryptoAgent: the dispatcher of market-data actions\<close>

record CryptoAgentResult =
  cr_success :: bool
  cr_action :: "string option"
  cr_data :: "js option"
  analysis :: "string option"
  cr_error :: "string option"

definition emptyCryptoResult :: CryptoAgentResult where
  "emptyCryptoResult =
     \<lparr>cr_success = False, cr_action = None, cr_data = None, analysis = None, cr_error = None\<rparr>"

definition CMC_BASE :: string where
  "CMC_BASE = ''https://pro-api.coinmarketcap.com/v1''"

definition cmcHeaders :: "env \<Rightarrow> (string \<times> js) list" where
  "cmcHeaders E =
     [(''X-CMC_PRO_API_KEY'',
       (case COINMARKETCAP_APIKEY E of None \<Rightarrow> JUndefined | Some k \<Rightarrow> JStr k))]"

text \<open>
  \<^verbatim>\<open>String.prototype.toUpperCase\<close>: in a text of ASCII the letters \<^verbatim>\<open>a\<close> to \<^verbatim>\<open>z\<close> become
  \<^verbatim>\<open>A\<close> to \<^verbatim>\<open>Z\<close>; every other text is left to the case mapping of the runtime.
\<close>

definition upperChar :: "char \<Rightarrow> char" where
  "upperChar c =
     (case map_of (zip ''abcdefghijklmnopqrstuvwxyz'' ''ABCDEFGHIJKLMNOPQRSTUVWXYZ'') c of
        None \<Rightarrow> c
      | Some d \<Rightarrow> d)"

definition upperCase :: "env \<Rightarrow> string \<Rightarrow> string" where
  "upperCase E s = (if list_all isAscii s then map upperChar s else toUpperCase E s)"

text \<open>
  Calls of a method on a value that the runtime may not have: \<^verbatim>\<open>v.toUpperCase()\<close>,
  \<^verbatim>\<open>v.toLocaleString(undefined, { maximumFractionDigits: 2 })\<close> and \<^verbatim>\<open>v.toFixed(2)\<close>; \<open>src\<close>
  is the text of the receiver.
\<close>

definition noMethod :: "js \<Rightarrow> string \<Rightarrow> string \<Rightarrow> exn" where
  "noMethod v src m =
     (if nullish v
      then Error (''Cannot read properties of '' @ typeName v @ '' (reading '' @ sq @ m @ sq @ '')'')
      else Error (src @ ''.'' @ m @ '' is not a function''))"

definition callToUpperCase :: "env \<Rightarrow> js \<Rightarrow> string \<Rightarrow> exn + string" where
  "callToUpperCase E v src =
     (case v of JStr s \<Rightarrow> Inr (upperCase E s) | _ \<Rightarrow> Inl (noMethod v src ''toUpperCase''))"

definition callToLocaleString :: "env \<Rightarrow> js \<Rightarrow> string \<Rightarrow> exn + string" where
  "callToLocaleString E v src =
     (if nullish v then Inl (noMethod v src ''toLocaleString'') else toLocaleString E v)"

definition callToFixed2 :: "env \<Rightarrow> js \<Rightarrow> string \<Rightarrow> exn + string" where
  "callToFixed2 E v src =
     (case v of JNum x \<Rightarrow> Inr (toFixed2 E x) | _ \<Rightarrow> Inl (noMethod v src ''toFixed''))"

text \<open>The values of \<^verbatim>\<open>Object.entries(v)\<close>, in the order of enumeration.\<close>

definition entryValues :: "js \<Rightarrow> exn + js list" where
  "entryValues v = (case v of
       JUndefined \<Rightarrow> Inl (Error ''Cannot convert undefined or null to object'')
     | JNull \<Rightarrow> Inl (Error ''Cannot convert undefined or null to object'')
     | JObj kvs \<Rightarrow> Inr (map snd kvs)
     | JArr xs \<Rightarrow> Inr xs
     | JStr s \<Rightarrow> Inr (map JStr (codeUnits s))
     | _ \<Rightarrow> Inr [])"

text \<open>The quote record that \<open>getQuotes\<close> and \<open>getTopCoins\<close> build from a coin.\<close>

definition quoteOf :: "js \<Rightarrow> exn + js" where
  "quoteOf coin =
     bindE (getProp coin ''quote'') (\<lambda>quote.
     bindE (getProp quote ''USD'') (\<lambda>q.
     bindE (getProp coin ''symbol'') (\<lambda>symbol.
     bindE (getProp coin ''name'') (\<lambda>name.
     bindE (getProp q ''price'') (\<lambda>price.
     bindE (getProp q ''volume_24h'') (\<lambda>volume_24h.
     bindE (getProp q ''percent_change_1h'') (\<lambda>percent_change_1h.
     bindE (getProp q ''percent_change_24h'') (\<lambda>percent_change_24h.
     bindE (getProp q ''percent_change_7d'') (\<lambda>percent_change_7d.
     bindE (getProp q ''market_cap'') (\<lambda>market_cap.
     bindE (getProp coin ''cmc_rank'') (\<lambda>rank.
     Inr (JObj [(''symbol'', symbol), (''name'', name), (''price'', price),
                (''volume_24h'', volume_24h), (''percent_change_1h'', percent_change_1h),
                (''percent_change_24h'', percent_change_24h),
                (''percent_change_7d'', percent_change_7d), (''market_cap'', market_cap),
                (''rank'', rank)]))))))))))))"

definition getQuotes :: "env \<Rightarrow> js \<Rightarrow> js list prog" where
  "getQuotes E symbols =
     andThen (lift (callToUpperCase E symbols ''symbols'')) (\<lambda>upper.
     andThen (axiosCall E
                \<lparr>req_method = ''GET'', req_url = CMC_BASE @ ''/cryptocurrency/quotes/latest'',
                 req_headers = cmcHeaders E, req_data = JUndefined,
                 req_params = [(''symbol'', JStr upper), (''convert'', JStr ''USD'')]\<rparr>) (\<lambda>payload.
     andThen (lift (bindE (getProp payload ''data'') entryValues)) (\<lambda>coins.
     lift (mapE quoteOf coins))))"

definition getTopCoins :: "env \<Rightarrow> js \<Rightarrow> js list prog" where
  "getTopCoins E limit =
     andThen (axiosCall E
                \<lparr>req_method = ''GET'', req_url = CMC_BASE @ ''/cryptocurrency/listings/latest'',
                 req_headers = cmcHeaders E, req_data = JUndefined,
                 req_params = [(''limit'', orDefault limit (JNum 10)), (''convert'', JStr ''USD'')]\<rparr>)
       (\<lambda>payload.
     andThen (lift (bindE (getProp payload ''data'') (\<lambda>d. asArray d ''data.data'' ''map''))) (\<lambda>coins.
     lift (mapE quoteOf coins)))"

definition analysisPrompt :: "string \<Rightarrow> string \<Rightarrow> string" where
  \<open>analysisPrompt quotesJson extra = concat
    [''You are a cryptocurrency market analyst. Analyze the following '',
     ''real-time market data and provide insights.'', nl, nl, ''## Market Data'', nl, bq,
     bq, bq, ''json'', nl, quotesJson, nl, bq, bq, bq, nl, nl, ''## Instructions'', nl,
     ''1. **Price Overview** '', endash, '' Current price, rank, market cap.'', nl,
     ''2. **Momentum** '', endash, '' 1h / 24h / 7d % changes. Bullish or bearish?'', nl,
     ''3. **Volume Analysis** '', endash,
     '' Is trading volume healthy relative to market cap?'', nl, ''4. **Key Takeaway** '',
     endash, '' One-liner verdict for each coin.'', nl, nl, nl,
     extra,
     nl, nl, ''Be specific, data-driven, no speculation. Use clean markdown.'']\<close>

definition analyzeWithGemini :: "env \<Rightarrow> js list \<Rightarrow> js \<Rightarrow> string prog" where
  "analyzeWithGemini E quotes query =
     andThen (lift (if truthy query
                    then bindE (toStr E query) (\<lambda>s.
                           Inr (nl @ ''## Additional User Request'' @ nl @ s @ nl))
                    else Inr [])) (\<lambda>extra.
     andThen (callGeminiWithRetry E (analysisPrompt (JSON_stringify E (JArr quotes)) extra))
       (\<lambda>response.
     ret (gr_text response)))"

definition cryptoParsePrompt :: "string \<Rightarrow> string" where
  \<open>cryptoParsePrompt userPrompt = concat
    [''You are a crypto assistant. Parse the user'', sq, ''s request into JSON.'', nl, nl,
     ''Actions you can perform:'', nl,
     ''- get_price: Get current price/quote for specific coin(s) (needs '',
     ''symbols as comma-separated, e.g. "BTC,ETH")'', nl,
     ''- top_coins: Get top coins by market cap (needs limit, default 10)'', nl,
     ''- analyze: Get price + AI analysis for specific coin(s) (needs symbols)'', nl,
     ''- market_overview: Get top 10 coins + AI analysis (no params needed)'', nl, nl,
     ''Respond ONLY with valid JSON, no markdown:'', nl,
     ''{"action":"action_name","params":{"symbols":"BTC","limit":10,"query":"us'', ''er'',
     sq, ''s extra question if any"}}'', nl, nl, ''Examples:'', nl, ''User: "What'', sq,
     ''s the price of Bitcoin?" '', rarrow,
     '' {"action":"get_price","params":{"symbols":"BTC","query":""}}'', nl,
     ''User: "Analyze ETH and SOL"        '', rarrow,
     '' {"action":"analyze","params":{"symbols":"ETH,SOL","query":""}}'', nl,
     ''User: "Top 20 cryptos"             '', rarrow,
     '' {"action":"top_coins","params":{"limit":20,"query":""}}'', nl, ''User: "How'', sq,
     ''s the crypto market?"   '', rarrow,
     '' {"action":"market_overview","params":{"limit":10,"query":""}}'', nl,
     ''User: "Is Dogecoin a good buy?"    '', rarrow,
     '' {"action":"analyze","params":{"symbols":"DOGE","query":"Is it a good '',
     ''buy?"}}'', nl, nl, ''User: "'', escapeQuotes userPrompt, ''"'']\<close>

text \<open>Step 1 of \<open>runCryptoAgent\<close>: the \<^verbatim>\<open>try\<close> block that asks the model for the intent.\<close>

definition parseCryptoIntent :: "env \<Rightarrow> string \<Rightarrow> js prog" where
  "parseCryptoIntent E userPrompt =
     andThen (callGeminiWithRetry E (cryptoParsePrompt userPrompt)) (\<lambda>response.
     andThen (lift (JSON_parse E (stripFences (gr_text response)))) (\<lambda>intent.
     andThen (lift (render E [T ''Action: '', V (getProp intent ''action'')])) (\<lambda>logged.
     ret intent)))"

text \<open>\<^verbatim>\<open>intent.params.k\<close>\<close>

definition paramOf :: "js \<Rightarrow> string \<Rightarrow> exn + js" where
  "paramOf intent k = bindE (getProp intent ''params'') (\<lambda>ps. getProp ps k)"

definition priceLine :: "env \<Rightarrow> js \<Rightarrow> exn + string" where
  "priceLine E q =
     render E
       [T ''   '', V (getProp q ''name''), T '' ('', V (getProp q ''symbol''), T ''): $'',
        V (bindE (getProp q ''price'') (\<lambda>v. bindE (callToLocaleString E v ''q.price'')
             (\<lambda>s. Inr (JStr s)))),
        T '' | 24h: '',
        V (bindE (getProp q ''percent_change_24h'')
             (\<lambda>v. bindE (callToFixed2 E v ''q.percent_change_24h'') (\<lambda>s. Inr (JStr s)))),
        T ''%'']"

definition topCoinLine :: "env \<Rightarrow> nat \<times> js \<Rightarrow> exn + string" where
  "topCoinLine E iq =
     (case iq of (i, q) \<Rightarrow>
        render E
          [N (i + 1), T ''. **'', V (getProp q ''name''), T ''** ('', V (getProp q ''symbol''),
           T ('') '' @ emdash @ '' $''),
           V (bindE (getProp q ''price'') (\<lambda>v. bindE (callToLocaleString E v ''q.price'')
                (\<lambda>s. Inr (JStr s)))),
           T '' | MCap: $'',
           V (bindE (getProp q ''market_cap'') (\<lambda>v. bindE (billionsFixed2 E v)
                (\<lambda>s. Inr (JStr s)))),
           T ''B | 24h: '',
           V (bindE (getProp q ''percent_change_24h'')
                (\<lambda>v. bindE (callToFixed2 E v ''q.percent_change_24h'') (\<lambda>s. Inr (JStr s)))),
           T ''%''])"

text \<open>Step 2 of \<open>runCryptoAgent\<close>: the body of the \<^verbatim>\<open>try\<close> block around the \<^verbatim>\<open>switch\<close>.\<close>

definition execCrypto :: "env \<Rightarrow> js \<Rightarrow> CryptoAgentResult prog" where
  "execCrypto E intent =
     andThen (lift (getProp intent ''action'')) (\<lambda>act.
     if act = JStr ''get_price'' then
       andThen (lift (paramOf intent ''symbols'')) (\<lambda>symbols.
       andThen (getQuotes E symbols) (\<lambda>quotes.
       andThen (lift (mapE (priceLine E) quotes)) (\<lambda>logged.
       ret (emptyCryptoResult\<lparr>cr_success := True, cr_action := Some ''get_price'',
                               cr_data := Some (JArr quotes)\<rparr>))))
     else if act = JStr ''top_coins'' then
       andThen (lift (paramOf intent ''limit'')) (\<lambda>limit.
       andThen (getTopCoins E (js_or limit (JNum 10))) (\<lambda>quotes.
       andThen (lift (mapE (topCoinLine E) (enumerate 0 quotes))) (\<lambda>lines.
       ret (emptyCryptoResult\<lparr>cr_success := True, cr_action := Some ''top_coins'',
                               cr_data := Some (JArr quotes),
                               analysis := Some (join nl lines)\<rparr>))))
     else if act = JStr ''analyze'' then
       andThen (lift (paramOf intent ''symbols'')) (\<lambda>symbols.
       andThen (getQuotes E symbols) (\<lambda>quotes.
       andThen (lift (paramOf intent ''query'')) (\<lambda>query.
       andThen (analyzeWithGemini E quotes (js_or query (JStr []))) (\<lambda>txt.
       ret (emptyCryptoResult\<lparr>cr_success := True, cr_action := Some ''analyze'',
                               cr_data := Some (JArr quotes), analysis := Some txt\<rparr>)))))
     else if act = JStr ''market_overview'' then
       andThen (lift (paramOf intent ''limit'')) (\<lambda>limit.
       andThen (getTopCoins E (js_or limit (JNum 10))) (\<lambda>quotes.
       andThen (lift (paramOf intent ''query'')) (\<lambda>query.
       andThen (analyzeWithGemini E quotes (js_or query (JStr ''Give a market overview''))) (\<lambda>txt.
       ret (emptyCryptoResult\<lparr>cr_success := True, cr_action := Some ''market_overview'',
                               cr_data := Some (JArr quotes), analysis := Some txt\<rparr>)))))
     else
       andThen (lift (render E [T ''Unknown action: '', V (Inr act)])) (\<lambda>msg.
       ret (emptyCryptoResult\<lparr>cr_error := Some msg\<rparr>)))"

definition runCryptoAgent :: "env \<Rightarrow> string \<Rightarrow> CryptoAgentResult prog" where
  "runCryptoAgent E userPrompt w =
     (case parseCryptoIntent E userPrompt w of
        (Inl err, w1) \<Rightarrow>
          ret (emptyCryptoResult\<lparr>cr_error :=
                 Some (''Failed to parse intent: '' @ exn_message err)\<rparr>) w1
      | (Inr intent, w1) \<Rightarrow>
          try_catch (execCrypto E intent)
            (\<lambda>err. ret (emptyCryptoResult\<lparr>cr_error :=
                            Some (''CoinMarketCap API error: '' @ exn_message err)\<rparr>))
            w1)"

section \<open>The retry policy in the words of the specification\<close>

text \<open>
  The specification of the Generative-Text Client, as a function of the outcomes the
  service gives: the ordered chain is run through in slots, \<open>MAX_RETRIES\<close> attempts for
  each model; a success ends the call with the text; after a rate-limited failure the
  call waits the base delay times the number of the attempt before the next attempt of
  the same model, and goes straight to the next model after the last attempt; any other
  failure ends the call with that error; when the slots are used up the call fails as
  exhausted. The result is \<open>None\<close> while the outcomes given do not yet decide the call.
\<close>

definition schedule :: "string list \<Rightarrow> (string \<times> nat) list" where
  "schedule chain = concat (map (\<lambda>m. map (Pair m) [1..<Suc MAX_RETRIES]) chain)"

definition exhaustedError :: exn where
  "exhaustedError =
     Error ''All Gemini models exhausted their quota. Please wait or upgrade your plan.''"

fun spec_complete ::
  "string \<Rightarrow> (string \<times> nat) list \<Rightarrow> (exn + string) list
   \<Rightarrow> event list \<times> (exn + GeminiResult) option" where
  "spec_complete p [] outs = ([], Some (Inl exhaustedError))"
| "spec_complete p ((m, a) # slots) [] = ([], None)"
| "spec_complete p ((m, a) # slots) (Inr t # outs) =
     ([Generate m p (Inr t)],
      Some (Inr \<lparr>gr_success = True, gr_text = t, gr_model = m\<rparr>))"
| "spec_complete p ((m, a) # slots) (Inl e # outs) =
     (if is429 (exn_message e)
      then (case spec_complete p slots outs of
              (tr, res) \<Rightarrow>
                (Generate m p (Inl e)
                   # (if a < MAX_RETRIES then [Sleep (BASE_DELAY_MS * a)] else []) @ tr,
                 res))
      else ([Generate m p (Inl e)], Some (Inl e)))"

text \<open>The outcomes of the generative calls of a trace, in order.\<close>

fun outcomes :: "event list \<Rightarrow> (exn + string) list" where
  "outcomes [] = []"
| "outcomes (Generate m p out # tr) = out # outcomes tr"
| "outcomes (Sleep ms # tr) = outcomes tr"
| "outcomes (Http req out # tr) = outcomes tr"

text \<open>A model that always fails with a rate-limit signature, whatever happened before.\<close>

definition rateLimited :: "env \<Rightarrow> string \<Rightarrow> string \<Rightarrow> bool" where
  "rateLimited E m p = (\<forall>tr. \<exists>e. generateContent E tr m p = Inl e \<and> is429 (exn_message e))"

section \<open>Concrete environments\<close>

definition quietEnv :: env where
  "quietEnv =
     \<lparr>generateContent = (\<lambda>tr m p. Inl (Error ''fetch failed'')),
      axios = (\<lambda>tr req. Inl (Exn ''Network Error'' None)),
      clock = (\<lambda>tr. ''2024-01-01T00:00:00.000Z''),
      GITHUB_CLIENT_ID = Some ''Iv1.0123456789abcdef'',
      GITHUB_REDIRECT_URI = Some ''http://localhost:6000/auth/github/callback'',
      COINMARKETCAP_APIKEY = None,
      JSON_parse = (\<lambda>s. Inl (Error ''Unexpected end of JSON input'')),
      JSON_stringify = (\<lambda>v. ''[]''),
      numToString = (\<lambda>x. ''0.5''),
      toLocaleString = (\<lambda>v. Inr ''0''),
      toFixed2 = (\<lambda>x. ''0.00''),
      billionsFixed2 = (\<lambda>v. Inr ''0.00''),
      Buffer_base64 = (\<lambda>v. case v of JStr s \<Rightarrow> Inr s | _ \<Rightarrow> Inl (Error ''The first argument must be of type string'')),
      toUpperCase = (\<lambda>s. s)\<rparr>"

definition world0 :: world where
  "world0 = \<lparr>tokenStore = Map.empty, events = []\<rparr>"

definition aliceToken :: TokenData where
  "aliceToken =
     \<lparr>accessToken = ''gho_alice'', tokenType = ''bearer'', scope = ''repo,user'',
      connectedAt = None\<rparr>"

text \<open>The first two models of the chain are out of quota, the third answers.\<close>

definition limitedEnv :: env where
  "limitedEnv =
     quietEnv\<lparr>generateContent := (\<lambda>tr m p.
        if m = ''gemini-3-flash'' then Inr ''pong''
        else Inl (Error ''[429 Too Many Requests] quota exceeded''))\<rparr>"

text \<open>The first model fails for a reason other than the rate limit, the others answer.\<close>

definition brokenFirstEnv :: env where
  "brokenFirstEnv =
     quietEnv\<lparr>generateContent := (\<lambda>tr m p.
        if m = ''gemini-2.5-flash'' then Inl (Error ''API key not valid'') else Inr ''pong'')\<rparr>"

text \<open>
  The model answers, within code fences, that it does not recognise the platform and
  leaves the action \<^verbatim>\<open>null\<close>.
\<close>

definition unknownText :: string where
  \<open>unknownText = ''{"platform":"unknown","urls":[],"action":null,"userQuery":""}''\<close>

definition unknownResponse :: string where
  "unknownResponse = bq @ bq @ bq @ ''json'' @ nl @ unknownText @ nl @ bq @ bq @ bq"

definition unknownEnv :: env where
  "unknownEnv =
     quietEnv\<lparr>generateContent := (\<lambda>tr m p. Inr unknownResponse),
              JSON_parse := (\<lambda>s. if s = unknownText
                 then Inr (JObj [(''platform'', JStr ''unknown''), (''urls'', JArr []),
                                 (''action'', JNull), (''userQuery'', JStr [])])
                 else Inl (Error ''Unexpected token''))\<rparr>"

text \<open>The provider operations of a trace: its HTTP requests.\<close>

fun isHttp :: "event \<Rightarrow> bool" where
  "isHttp (Http req out) = True"
| "isHttp (Generate m p out) = False"
| "isHttp (Sleep ms) = False"

definition httpCalls :: "event list \<Rightarrow> event list" where
  "httpCalls tr = filter isHttp tr"

text \<open>
  The model asks to star a repository, respectively to delete one; \<open>aliceWorld\<close> is a world
  where the identity \<open>alice\<close> has a Credential Record.
\<close>

definition starText :: string where
  \<open>starText = ''{"action":"star_repo","params":{"owner":"facebook","repo":"react"}}''\<close>

definition starIntent :: js where
  "starIntent =
     JObj [(''action'', JStr ''star_repo''),
           (''params'', JObj [(''owner'', JStr ''facebook''), (''repo'', JStr ''react'')])]"

definition starEnv :: env where
  "starEnv =
     quietEnv\<lparr>generateContent := (\<lambda>tr m p. Inr starText),
              JSON_parse := (\<lambda>s. if s = starText then Inr starIntent
                                  else Inl (Error ''Unexpected token''))\<rparr>"

definition deleteText :: string where
  \<open>deleteText = ''{"action":"delete_repo","params":{"owner":"octocat","repo":"hello"}}''\<close>

definition deleteIntent :: js where
  "deleteIntent =
     JObj [(''action'', JStr ''delete_repo''),
           (''params'', JObj [(''owner'', JStr ''octocat''), (''repo'', JStr ''hello'')])]"

definition deleteEnv :: env where
  "deleteEnv =
     quietEnv\<lparr>generateContent := (\<lambda>tr m p. Inr deleteText),
              JSON_parse := (\<lambda>s. if s = deleteText then Inr deleteIntent
                                  else Inl (Error ''Unexpected token''))\<rparr>"

definition aliceWorld :: world where
  "aliceWorld = \<lparr>tokenStore = [''alice'' \<mapsto> aliceToken], events = []\<rparr>"

text \<open>
  Prompts for the fallback path of the classifier in which a no-break space (U+00A0)
  stands where a space would: inside a keyword of two words, and after a URL.
\<close>

definition nbsp :: string where
  "nbsp = [CHR 0xC2, CHR 0xA0]"

definition pullRequestPrompt :: string where
  "pullRequestPrompt = ''open a Pull'' @ nbsp @ ''Request''"

definition urlPrompt :: string where
  "urlPrompt = ''look HTTPS://www.Instagram.com/p/abc'' @ nbsp @ ''next''"

section \<open>Credential-invalid signals in a trace\<close>

text \<open>
  A request is authenticated when it carries an \<^verbatim>\<open>Authorization\<close> header. A
  credential-invalid signal is an authenticated request that the provider answers with
  status 401. \<open>expiredError\<close> is the error \<open>githubAPI\<close> throws for it.
\<close>

definition authorized :: "request \<Rightarrow> bool" where
  "authorized req = (map_of (req_headers req) ''Authorization'' \<noteq> None)"

fun is401 :: "event \<Rightarrow> bool" where
  "is401 (Http req (Inl e)) = (authorized req \<and> exn_status e = Some 401)"
| "is401 (Http req (Inr v)) = False"
| "is401 (Generate m p out) = False"
| "is401 (Sleep ms) = False"

definition has401 :: "event list \<Rightarrow> bool" where
  "has401 tr = (\<exists>ev \<in> set tr. is401 ev)"

definition expiredError :: exn where
  "expiredError = Error ''GitHub token expired. Please reconnect your GitHub account.''"


definition strict :: "string \<Rightarrow> 'a prog \<Rightarrow> bool" where
  "strict u m =
     (\<forall>w. \<exists>tr. events (snd (m w)) = events w @ tr
           \<and> tokenStore (snd (m w)) = (if has401 tr then (tokenStore w)(u := None) else tokenStore w)
           \<and> (has401 tr \<longrightarrow> fst (m w) = Inl expiredError))"

section \<open>Outcome states\<close>

text \<open>
  The three outcome states of a dispatch, read off the fields of a result: \<open>ok\<close> has
  \<^verbatim>\<open>success: true\<close> with action, summary and data; \<open>needsAuthorization\<close> has
  \<^verbatim>\<open>needsAuth: true\<close> with an authorization URL; \<open>failed\<close> has an error message. A
  result that fits none of them has no outcome state. The crypto agent never asks for
  authorization.
\<close>

datatype outcome = Ok | NeedsAuthorization | Failed

definition outcomeOf :: "GitHubAgentResult \<Rightarrow> outcome option" where
  "outcomeOf r =
     (if success r \<and> action r \<noteq> None \<and> summary r \<noteq> None \<and> rawData r \<noteq> None
         \<and> error r = None \<and> needsAuth r = None
      then Some Ok
      else if \<not> success r \<and> needsAuth r = Some True \<and> authUrl r \<noteq> None \<and> error r = None
      then Some NeedsAuthorization
      else if \<not> success r \<and> error r \<noteq> None \<and> needsAuth r = None
      then Some Failed
      else None)"

definition cryptoOutcomeOf :: "CryptoAgentResult \<Rightarrow> outcome option" where
  "cryptoOutcomeOf r =
     (if cr_success r \<and> cr_action r \<noteq> None \<and> cr_data r \<noteq> None \<and> cr_error r = None
      then Some Ok
      else if \<not> cr_success r \<and> cr_error r \<noteq> None
      then Some Failed
      else None)"

text \<open>
  \<open>yields m P\<close>: whenever \<open>m\<close> returns normally, its value satisfies \<open>P\<close>.
\<close>

definition yields :: "'a prog \<Rightarrow> ('a \<Rightarrow> bool) \<Rightarrow> bool" where
  "yields m P = (\<forall>w. case fst (m w) of Inl e \<Rightarrow> True | Inr x \<Rightarrow> P x)"

definition endsWell :: "caseEnd \<Rightarrow> bool" where
  "endsWell ended = (case ended of Return r \<Rightarrow> outcomeOf r = Some Failed | Break result txt \<Rightarrow> True)"

definition cryptoEndsWell :: "CryptoAgentResult \<Rightarrow> bool" where
  "cryptoEndsWell r = (cryptoOutcomeOf r = Some Ok \<or> cryptoOutcomeOf r = Some Failed)"

section \<open>Environments with an expired credential\<close>








text \<open>The model asks to star a repository and the provider accepts every request.\<close>

definition starredEnv :: env where
  "starredEnv = starEnv\<lparr>axios := (\<lambda>tr req. Inr JNull)\<rparr>"

section \<open>The multi-file push, file by file\<close>

text \<open>
  A \<open>FileEntry\<close> of the source (\<^verbatim>\<open>{ path: string; content: string }\<close>) and the value
  it is at run time.
\<close>

record FileEntry =
  fe_path :: string
  fe_content :: string

definition fileJs :: "FileEntry \<Rightarrow> js" where
  "fileJs f = JObj [(''path'', JStr (fe_path f)), (''content'', JStr (fe_content f))]"

text \<open>
  The writes of a file list, one after the other in the order of the list: \<open>writes\<close>
  runs \<open>createOrUpdateFile\<close> for each file in the world the file before it has left,
  whatever the outcome of that file was, and lists the outcomes. A file is \<open>written\<close>
  when its write returns the response of the provider (a value other than
  \<^verbatim>\<open>null\<close> and \<^verbatim>\<open>undefined\<close>).
\<close>

definition written :: "exn + js \<Rightarrow> bool" where
  "written out = (case out of Inl e \<Rightarrow> False | Inr result \<Rightarrow> \<not> nullish result)"

fun writes ::
  "env \<Rightarrow> js \<Rightarrow> js \<Rightarrow> FileEntry list \<Rightarrow> string \<Rightarrow> string \<Rightarrow> world
   \<Rightarrow> (exn + js) list \<times> world" where
  "writes E owner repo [] commitMessage userId w = ([], w)"
| "writes E owner repo (f # fs) commitMessage userId w =
     (case createOrUpdateFile E owner repo (JStr (fe_path f)) (JStr (fe_content f))
             commitMessage userId w of
        (out, w1) \<Rightarrow>
          (case writes E owner repo fs commitMessage userId w1 of
             (outs, w2) \<Rightarrow> (out # outs, w2)))"

text \<open>
  The summary of a push: the number of files written out of the number of files, and a
  line for each file.
\<close>

definition pushedLine :: "FileEntry \<times> (exn + js) \<Rightarrow> string" where
  "pushedLine fo =
     ''   '' @ (if written (snd fo) then e_check else e_cross) @ '' '' @ fe_path (fst fo)"

definition pushedText :: "string \<Rightarrow> string \<Rightarrow> FileEntry list \<Rightarrow> (exn + js) list \<Rightarrow> string" where
  "pushedText owner repo fs outs =
     e_outbox @ '' Pushed '' @ natToStr (length (filter written outs)) @ ''/''
       @ natToStr (length fs) @ '' files to **'' @ owner @ ''/'' @ repo @ ''**'' @ nl
       @ join nl (map pushedLine (zip fs outs))"

text \<open>The \<open>PushResult\<close> that the loop of \<open>pushProject\<close> records for a file.\<close>

definition fileResult :: "FileEntry \<Rightarrow> exn + js \<Rightarrow> PushResult" where
  "fileResult f out =
     (case bindE out contentHtmlUrl of
        Inr h \<Rightarrow> \<lparr>path = JStr (fe_path f), pr_success = True, url = h, pr_error = None\<rparr>
      | Inl e \<Rightarrow> \<lparr>path = JStr (fe_path f), pr_success = False, url = JUndefined,
                  pr_error = Some (exn_message e)\<rparr>)"

text \<open>
  Three files are pushed; the provider knows none of them (404 on reading) and accepts
  the writes of the first and the third, but refuses the write of the second (500).
\<close>

definition threeFiles :: "FileEntry list" where
  "threeFiles =
     [\<lparr>fe_path = ''a.txt'', fe_content = ''A''\<rparr>,
      \<lparr>fe_path = ''b.txt'', fe_content = ''B''\<rparr>,
      \<lparr>fe_path = ''c.txt'', fe_content = ''C''\<rparr>]"

definition pushThreeText :: string where
  \<open>pushThreeText = ''{"action":"push_project","params":{"owner":"octo","repo":"demo","files":[{"path":"a.txt","content":"A"},{"path":"b.txt","content":"B"},{"path":"c.txt","content":"C"}]}}''\<close>

definition pushThreeParams :: "(string \<times> js) list" where
  "pushThreeParams =
     [(''owner'', JStr ''octo''), (''repo'', JStr ''demo''),
      (''files'', JArr [JObj [(''path'', JStr ''a.txt''), (''content'', JStr ''A'')],
                        JObj [(''path'', JStr ''b.txt''), (''content'', JStr ''B'')],
                        JObj [(''path'', JStr ''c.txt''), (''content'', JStr ''C'')]])]"

definition pushThreeIntent :: js where
  "pushThreeIntent = JObj [(''action'', JStr ''push_project''), (''params'', JObj pushThreeParams)]"

definition pushEnv :: env where
  "pushEnv =
     quietEnv\<lparr>generateContent := (\<lambda>tr m p. Inr pushThreeText),
              JSON_parse := (\<lambda>s. if s = pushThreeText then Inr pushThreeIntent
                                  else Inl (Error ''Unexpected token'')),
              axios := (\<lambda>tr req.
                if req_method req = ''GET''
                then Inl (Exn ''Request failed with status code 404'' (Some 404))
                else if req_url req = ''https://api.github.com/repos/octo/demo/contents/b.txt''
                then Inl (Exn ''Request failed with status code 500'' (Some 500))
                else Inr (JObj [(''content'', JObj [(''html_url'', JStr (req_url req))])]))\<rparr>"



section \<open>Authorization State: round trip and isolation\<close>

text \<open>
  C10. After \<open>storeToken\<close> for an identity the identity is connected and \<open>getToken\<close>
  returns a record with the stored access token, token type and scope and with
  \<open>connectedAt\<close> set; after \<open>disconnect\<close> the identity is not connected and \<open>getToken\<close>
  returns nothing; and neither operation on identity \<open>A\<close> changes what is stored for
  another identity \<open>B\<close>.
\<close>

theorem tokenStore_roundtrip_isolation:
  "isConnected (storeToken E A t w) A
   \<and> (\<exists>r. getToken (storeToken E A t w) A = Some r
        \<and> accessToken r = accessToken t \<and> tokenType r = tokenType t \<and> scope r = scope t
        \<and> connectedAt r \<noteq> None)
   \<and> \<not> isConnected (disconnect A w) A
   \<and> getToken (disconnect A w) A = None
   \<and> (B \<noteq> A \<longrightarrow>
        getToken (storeToken E A t w) B = getToken w B
        \<and> getToken (disconnect A w) B = getToken w B
        \<and> isConnected (storeToken E A t w) B = isConnected w B
        \<and> isConnected (disconnect A w) B = isConnected w B)"
  by (simp add: isConnected_def getToken_def storeToken_def disconnect_def)

theorem tokenStore_roundtrip_isolation_witness:
  "getToken (storeToken quietEnv ''alice'' aliceToken (storeToken quietEnv ''bob'' aliceToken world0)) ''bob''
     = Some (aliceToken\<lparr>connectedAt := Some ''2024-01-01T00:00:00.000Z''\<rparr>)
   \<and> getToken (disconnect ''alice'' (storeToken quietEnv ''bob'' aliceToken world0)) ''bob''
     = Some (aliceToken\<lparr>connectedAt := Some ''2024-01-01T00:00:00.000Z''\<rparr>)
   \<and> isConnected (storeToken quietEnv ''alice'' aliceToken world0) ''alice''
   \<and> \<not> isConnected (disconnect ''alice'' (storeToken quietEnv ''alice'' aliceToken world0)) ''alice''"
  using tokenStore_roundtrip_isolation
          [of quietEnv "''alice''" aliceToken "storeToken quietEnv ''bob'' aliceToken world0" "''bob''"]
        tokenStore_roundtrip_isolation
          [of quietEnv "''alice''" aliceToken world0 "''bob''"]
        tokenStore_roundtrip_isolation
          [of quietEnv "''alice''" aliceToken "storeToken quietEnv ''alice'' aliceToken world0" "''bob''"]
  by (simp add: getToken_def storeToken_def quietEnv_def world0_def)

section \<open>Generative-Text Client: retry, back-off and model fallback\<close>

lemma outcomes_append: "outcomes (xs @ ys) = outcomes xs @ outcomes ys"
  by (induction xs rule: outcomes.induct) auto

lemma attemptLoop_refines:
  "attemptLoop E p m a w = (r, w') \<Longrightarrow>
   \<exists>tr. events w' = events w @ tr \<and> tokenStore w' = tokenStore w \<and>
     (\<forall>slots outs.
        spec_complete p (map (Pair m) [a..<Suc MAX_RETRIES] @ slots) (outcomes tr @ outs) =
          (case r of
             Inr None \<Rightarrow> (case spec_complete p slots outs of (tr2, res2) \<Rightarrow> (tr @ tr2, res2))
           | Inr (Some g) \<Rightarrow> (tr, Some (Inr g))
           | Inl e \<Rightarrow> (tr, Some (Inl e))))"
proof (induction E p m a w arbitrary: r w' rule: attemptLoop.induct)
  case (1 E prompt modelName attempt w)
  show ?case
  proof (cases "attempt \<le> MAX_RETRIES")
    case False
    with "1.prems" have "r = Inr None" "w' = w"
      by (simp_all add: attemptLoop.simps)
    moreover from False have "[attempt..<Suc MAX_RETRIES] = []" by simp
    ultimately show ?thesis by (auto split: prod.splits)
  next
    case le: True
    then have upt: "[attempt..<Suc MAX_RETRIES] = attempt # [attempt + 1..<Suc MAX_RETRIES]"
      by (simp add: upt_conv_Cons)
    obtain out w1 where g: "generate E modelName prompt w = (out, w1)" by force
    then have w1: "events w1 = events w @ [Generate modelName prompt out]" "tokenStore w1 = tokenStore w"
      and out: "out = generateContent E (events w) modelName prompt"
      by (auto simp: generate_def Let_def)
    show ?thesis
    proof (cases out)
      case (Inr t)
      with "1.prems" le g have "r = Inr (Some \<lparr>gr_success = True, gr_text = t, gr_model = modelName\<rparr>)" "w' = w1"
        by (simp_all add: attemptLoop.simps)
      with w1 Inr upt show ?thesis by (intro exI[of _ "[Generate modelName prompt out]"]) simp
    next
      case (Inl e)
      show ?thesis
      proof (cases "is429 (exn_message e)")
        case False
        with "1.prems" le g Inl have "r = Inl e" "w' = w1"
          by (simp_all add: attemptLoop.simps)
        with w1 Inl upt False show ?thesis by (intro exI[of _ "[Generate modelName prompt out]"]) simp
      next
        case rl: True
        show ?thesis
        proof (cases "attempt < MAX_RETRIES")
          case False
          with le have eq: "attempt = MAX_RETRIES" by simp
          with "1.prems" le g Inl rl have "r = Inr None" "w' = w1"
            by (simp_all add: attemptLoop.simps)
          moreover from eq have "[attempt + 1..<Suc MAX_RETRIES] = []" by simp
          ultimately show ?thesis using w1 Inl upt rl eq
            by (intro exI[of _ "[Generate modelName prompt out]"]) (simp split: prod.splits)
        next
          case lt: True
          with "1.prems" le g Inl rl
          have rec: "attemptLoop E prompt modelName (attempt + 1) (sleep (BASE_DELAY_MS * attempt) w1) = (r, w')"
            by (simp add: attemptLoop.simps)
          from "1.IH"[OF le g[symmetric] _ _ rec] Inl rl lt
          obtain tr where tr: "events w' = events (sleep (BASE_DELAY_MS * attempt) w1) @ tr"
            "tokenStore w' = tokenStore (sleep (BASE_DELAY_MS * attempt) w1)"
            "\<And>slots outs. spec_complete prompt (map (Pair modelName) [attempt + 1..<Suc MAX_RETRIES] @ slots) (outcomes tr @ outs) =
          (case r of
             Inr None \<Rightarrow> (case spec_complete prompt slots outs of (tr2, res2) \<Rightarrow> (tr @ tr2, res2))
           | Inr (Some g) \<Rightarrow> (tr, Some (Inr g))
           | Inl e \<Rightarrow> (tr, Some (Inl e)))"
            by auto
          show ?thesis
            apply (intro exI[of _ "Generate modelName prompt out # Sleep (BASE_DELAY_MS * attempt) # tr"])
            using tr w1 Inl rl lt upt
            by (auto simp: sleep_def split: sum.splits option.splits prod.splits)
        qed
      qed
    qed
  qed
qed


lemma schedule_Cons:
  "schedule (m # chain) = map (Pair m) [1..<Suc MAX_RETRIES] @ schedule chain"
  by (simp add: schedule_def)

lemma modelLoop_refines:
  "modelLoop E p chain w = (res, w') \<Longrightarrow>
   \<exists>tr. events w' = events w @ tr \<and> tokenStore w' = tokenStore w \<and>
        spec_complete p (schedule chain) (outcomes tr) = (tr, Some res)"
proof (induction chain arbitrary: w res w')
  case Nil
  then show ?case by (simp add: schedule_def exhaustedError_def)
next
  case (Cons m chain)
  obtain r w1 where a: "attemptLoop E p m 1 w = (r, w1)" by force
  from attemptLoop_refines[OF a]
  obtain tr where tr: "events w1 = events w @ tr" "tokenStore w1 = tokenStore w"
    and sp: "\<And>slots outs. spec_complete p (map (Pair m) [1..<Suc MAX_RETRIES] @ slots) (outcomes tr @ outs) =
          (case r of
             Inr None \<Rightarrow> (case spec_complete p slots outs of (tr2, res2) \<Rightarrow> (tr @ tr2, res2))
           | Inr (Some g) \<Rightarrow> (tr, Some (Inr g))
           | Inl e \<Rightarrow> (tr, Some (Inl e)))"
    by auto
  show ?case
  proof (cases r)
    case (Inl e)
    with Cons.prems a have "res = Inl e" "w' = w1" by simp_all
    with tr sp[of "schedule chain" "[]"] Inl show ?thesis
      by (intro exI[of _ tr]) (simp add: schedule_Cons)
  next
    case (Inr opt)
    show ?thesis
    proof (cases opt)
      case (Some g)
      with Cons.prems a Inr have "res = Inr g" "w' = w1" by simp_all
      with tr sp[of "schedule chain" "[]"] Inr Some show ?thesis
        by (intro exI[of _ tr]) (simp add: schedule_Cons)
    next
      case None
      with Cons.prems a Inr have rec: "modelLoop E p chain w1 = (res, w')" by simp
      from Cons.IH[OF rec] obtain tr2 where tr2: "events w' = events w1 @ tr2"
        "tokenStore w' = tokenStore w1"
        "spec_complete p (schedule chain) (outcomes tr2) = (tr2, Some res)" by auto
      with tr sp[of "schedule chain" "outcomes tr2"] Inr None show ?thesis
        by (intro exI[of _ "tr @ tr2"]) (simp add: schedule_Cons outcomes_append)
    qed
  qed
qed

lemma attemptLoop_rateLimited:
  assumes "rateLimited E m p"
  shows "\<exists>e1 e2 e3. is429 (exn_message e1) \<and> is429 (exn_message e2) \<and> is429 (exn_message e3) \<and>
           attemptLoop E p m 1 w =
             (Inr None,
              w\<lparr>events := events w @
                 [Generate m p (Inl e1), Sleep 5000, Generate m p (Inl e2), Sleep 10000,
                  Generate m p (Inl e3)]\<rparr>)"
proof -
  from assms obtain e1 where e1: "generateContent E (events w) m p = Inl e1" "is429 (exn_message e1)"
    unfolding rateLimited_def by blast
  let ?t1 = "events w @ [Generate m p (Inl e1), Sleep 5000]"
  from assms obtain e2 where e2: "generateContent E ?t1 m p = Inl e2" "is429 (exn_message e2)"
    unfolding rateLimited_def by blast
  let ?t2 = "?t1 @ [Generate m p (Inl e2), Sleep 10000]"
  from assms obtain e3 where e3: "generateContent E ?t2 m p = Inl e3" "is429 (exn_message e3)"
    unfolding rateLimited_def by blast
  have "attemptLoop E p m 1 w =
             (Inr None,
              w\<lparr>events := events w @
                 [Generate m p (Inl e1), Sleep 5000, Generate m p (Inl e2), Sleep 10000,
                  Generate m p (Inl e3)]\<rparr>)"
    using e1 e2 e3
    by (simp add: attemptLoop.simps[of E p m] generate_def sleep_def MAX_RETRIES_def BASE_DELAY_MS_def Let_def)
  with e1 e2 e3 show ?thesis by blast
qed

lemma modelLoop_exhausted:
  "\<forall>m \<in> set chain. rateLimited E m p \<Longrightarrow>
   fst (modelLoop E p chain w) = Inl exhaustedError
   \<and> length (outcomes (drop (length (events w)) (events (snd (modelLoop E p chain w))))) = MAX_RETRIES * length chain"
proof (induction chain arbitrary: w)
  case Nil
  then show ?case by (simp add: exhaustedError_def)
next
  case (Cons m chain)
  then have rl: "rateLimited E m p" and rest: "\<forall>m \<in> set chain. rateLimited E m p" by simp_all
  from attemptLoop_rateLimited[OF rl, of w] obtain e1 e2 e3 where
    a: "attemptLoop E p m 1 w =
             (Inr None,
              w\<lparr>events := events w @
                 [Generate m p (Inl e1), Sleep 5000, Generate m p (Inl e2), Sleep 10000,
                  Generate m p (Inl e3)]\<rparr>)" by blast
  let ?w1 = "w\<lparr>events := events w @
                 [Generate m p (Inl e1), Sleep 5000, Generate m p (Inl e2), Sleep 10000,
                  Generate m p (Inl e3)]\<rparr>"
  obtain res w' where r: "modelLoop E p chain ?w1 = (res, w')" by force
  from modelLoop_refines[OF r] obtain tr where tr: "events w' = events ?w1 @ tr" by blast
  from Cons.IH[OF rest, of ?w1] r tr have "res = Inl exhaustedError" "length (outcomes tr) = MAX_RETRIES * length chain"
    by simp_all
  with a r tr show ?case by (simp add: outcomes_append MAX_RETRIES_def)
qed

lemma spec_complete_fatal_last:
  "spec_complete p slots outs = (tr, Some res) \<Longrightarrow> tr = pre @ Generate m q (Inl e) # post \<Longrightarrow>
   \<not> is429 (exn_message e) \<Longrightarrow> post = [] \<and> res = Inl e"
proof (induction p slots outs arbitrary: tr pre rule: spec_complete.induct)
  case (1 p outs)
  then show ?case by simp
next
  case (2 p m a slots)
  then show ?case by simp
next
  case (3 p m a slots t outs)
  then show ?case by (cases pre) auto
next
  case (4 p m' a slots e' outs)
  show ?case
  proof (cases "is429 (exn_message e')")
    case False
    with 4 show ?thesis by (cases pre) auto
  next
    case True
    obtain tr2 res2 where s: "spec_complete p slots outs = (tr2, res2)" by force
    with "4.prems" True have res2: "res2 = Some res"
      and tr: "tr = Generate m' p (Inl e') # (if a < MAX_RETRIES then [Sleep (BASE_DELAY_MS * a)] else []) @ tr2"
      by simp_all
    from tr "4.prems"(2,3) True obtain pre2 where "tr2 = pre2 @ Generate m q (Inl e) # post"
      by (cases pre; cases "a < MAX_RETRIES"; cases "tl pre") (auto split: if_splits)
    from "4.IH"[OF True s[unfolded res2] this "4.prems"(3)] show ?thesis .
  qed
qed

lemma attemptLoop_answers:
  "generateContent E (events w) C prompt = Inr answer \<Longrightarrow>
   attemptLoop E prompt C 1 w =
      (Inr (Some \<lparr>gr_success = True, gr_text = answer, gr_model = C\<rparr>),
       w\<lparr>events := events w @ [Generate C prompt (Inr answer)]\<rparr>)"
  by (simp add: attemptLoop.simps[of E prompt C] generate_def MAX_RETRIES_def Let_def)

lemma modelLoop_third_answers:
  assumes h: "rateLimited E A prompt" "rateLimited E B prompt"
        "\<forall>tr. generateContent E tr C prompt = Inr answer"
  shows "\<exists>a1 a2 a3 b1 b2 b3.
           modelLoop E prompt [A, B, C] w =
             (Inr \<lparr>gr_success = True, gr_text = answer, gr_model = C\<rparr>,
              w\<lparr>events := events w @
                 [Generate A prompt (Inl a1), Sleep 5000, Generate A prompt (Inl a2),
                  Sleep 10000, Generate A prompt (Inl a3),
                  Generate B prompt (Inl b1), Sleep 5000, Generate B prompt (Inl b2),
                  Sleep 10000, Generate B prompt (Inl b3),
                  Generate C prompt (Inr answer)]\<rparr>)"
proof -
  define w1 where "w1 a1 a2 a3 = w\<lparr>events := events w @
             [Generate A prompt (Inl a1), Sleep 5000, Generate A prompt (Inl a2), Sleep 10000,
              Generate A prompt (Inl a3)]\<rparr>" for a1 a2 a3
  from h attemptLoop_rateLimited[of E A prompt w] obtain a1 a2 a3 where
    a: "attemptLoop E prompt A 1 w = (Inr None, w1 a1 a2 a3)"
    unfolding w1_def by blast
  define w2 where "w2 b1 b2 b3 = (w1 a1 a2 a3)\<lparr>events := events (w1 a1 a2 a3) @
             [Generate B prompt (Inl b1), Sleep 5000, Generate B prompt (Inl b2), Sleep 10000,
              Generate B prompt (Inl b3)]\<rparr>" for b1 b2 b3
  from h attemptLoop_rateLimited[of E B prompt "w1 a1 a2 a3"] obtain b1 b2 b3 where
    b: "attemptLoop E prompt B 1 (w1 a1 a2 a3) = (Inr None, w2 b1 b2 b3)"
    unfolding w2_def by blast
  from h have c: "attemptLoop E prompt C 1 (w2 b1 b2 b3) =
      (Inr (Some \<lparr>gr_success = True, gr_text = answer, gr_model = C\<rparr>),
       (w2 b1 b2 b3)\<lparr>events := events (w2 b1 b2 b3) @ [Generate C prompt (Inr answer)]\<rparr>)"
    by (intro attemptLoop_answers) simp
  have "modelLoop E prompt [A, B, C] w = (Inr \<lparr>gr_success = True, gr_text = answer, gr_model = C\<rparr>,
       (w2 b1 b2 b3)\<lparr>events := events (w2 b1 b2 b3) @ [Generate C prompt (Inr answer)]\<rparr>)"
    by (simp only: modelLoop.simps a b c prod.case sum.case option.case)
  then show ?thesis
    unfolding w2_def w1_def
    by (rule_tac x = a1 in exI, rule_tac x = a2 in exI, rule_tac x = a3 in exI,
        rule_tac x = b1 in exI, rule_tac x = b2 in exI, rule_tac x = b3 in exI) simp
qed

text \<open>
  C2. Every call of \<open>callGeminiWithRetry\<close> runs as the specification's policy
  \<open>spec_complete\<close> prescribes for the outcomes the service gave: the models of the chain in
  order, at most three attempts for each, a wait of 5000 ms times the number of the
  attempt after a rate-limited failure before the next attempt of the same model, the
  next model only after the third attempt. When every model of the chain is always rate
  limited the call fails as exhausted after three attempts of each. For a chain
  \<open>[A, B, C]\<close> where \<open>A\<close> and \<open>B\<close> are always rate limited and \<open>C\<close> answers, the call returns
  the answer of \<open>C\<close> after exactly three attempts of \<open>A\<close> and three of \<open>B\<close>.
\<close>

theorem callGeminiWithRetry_retry_policy:
  "(\<forall>res w'. callGeminiWithRetry E prompt w = (res, w') \<longrightarrow>
      (\<exists>tr. events w' = events w @ tr \<and> tokenStore w' = tokenStore w
           \<and> spec_complete prompt (schedule MODELS) (outcomes tr) = (tr, Some res)))
   \<and> ((\<forall>m \<in> set MODELS. rateLimited E m prompt) \<longrightarrow>
        fst (callGeminiWithRetry E prompt w) = Inl exhaustedError
        \<and> length (outcomes (drop (length (events w))
                              (events (snd (callGeminiWithRetry E prompt w)))))
            = MAX_RETRIES * length MODELS)
   \<and> (rateLimited E A prompt \<and> rateLimited E B prompt
        \<and> (\<forall>tr. generateContent E tr C prompt = Inr answer) \<longrightarrow>
        (\<exists>a1 a2 a3 b1 b2 b3.
           modelLoop E prompt [A, B, C] w =
             (Inr \<lparr>gr_success = True, gr_text = answer, gr_model = C\<rparr>,
              w\<lparr>events := events w @
                 [Generate A prompt (Inl a1), Sleep 5000, Generate A prompt (Inl a2),
                  Sleep 10000, Generate A prompt (Inl a3),
                  Generate B prompt (Inl b1), Sleep 5000, Generate B prompt (Inl b2),
                  Sleep 10000, Generate B prompt (Inl b3),
                  Generate C prompt (Inr answer)]\<rparr>)))"
proof (intro conjI allI impI)
  fix res w'
  assume "callGeminiWithRetry E prompt w = (res, w')"
  then show "\<exists>tr. events w' = events w @ tr \<and> tokenStore w' = tokenStore w
           \<and> spec_complete prompt (schedule MODELS) (outcomes tr) = (tr, Some res)"
    unfolding callGeminiWithRetry_def by (rule modelLoop_refines)
next
  assume all: "\<forall>m \<in> set MODELS. rateLimited E m prompt"
  from modelLoop_exhausted[OF all, of w]
  show "fst (callGeminiWithRetry E prompt w) = Inl exhaustedError"
    and "length (outcomes (drop (length (events w))
                              (events (snd (callGeminiWithRetry E prompt w)))))
            = MAX_RETRIES * length MODELS"
    unfolding callGeminiWithRetry_def by simp_all
next
  assume "rateLimited E A prompt \<and> rateLimited E B prompt
        \<and> (\<forall>tr. generateContent E tr C prompt = Inr answer)"
  then show "\<exists>a1 a2 a3 b1 b2 b3.
           modelLoop E prompt [A, B, C] w =
             (Inr \<lparr>gr_success = True, gr_text = answer, gr_model = C\<rparr>,
              w\<lparr>events := events w @
                 [Generate A prompt (Inl a1), Sleep 5000, Generate A prompt (Inl a2),
                  Sleep 10000, Generate A prompt (Inl a3),
                  Generate B prompt (Inl b1), Sleep 5000, Generate B prompt (Inl b2),
                  Sleep 10000, Generate B prompt (Inl b3),
                  Generate C prompt (Inr answer)]\<rparr>)"
    by (intro modelLoop_third_answers) simp_all
qed

lemma is429_limitedEnv: "is429 ''[429 Too Many Requests] quota exceeded''"
  by (simp add: is429_def)

lemma rateLimited_limitedEnv:
  "m \<noteq> ''gemini-3-flash'' \<Longrightarrow> rateLimited limitedEnv m p"
  by (simp add: rateLimited_def limitedEnv_def quietEnv_def Error_def is429_limitedEnv)

theorem callGeminiWithRetry_retry_policy_witness:
  "fst (callGeminiWithRetry limitedEnv ''ping'' world0)
     = Inr \<lparr>gr_success = True, gr_text = ''pong'', gr_model = ''gemini-3-flash''\<rparr>
   \<and> map (\<lambda>ev. case ev of Generate m p out \<Rightarrow> m | Sleep ms \<Rightarrow> natToStr ms | Http req out \<Rightarrow> [])
        (events (snd (callGeminiWithRetry limitedEnv ''ping'' world0)))
     = [''gemini-2.5-flash'', ''5000'', ''gemini-2.5-flash'', ''10000'', ''gemini-2.5-flash'',
        ''gemini-2.5-flash-lite'', ''5000'', ''gemini-2.5-flash-lite'', ''10000'',
        ''gemini-2.5-flash-lite'', ''gemini-3-flash'']"
proof -
  have l: "rateLimited limitedEnv ''gemini-2.5-flash'' ''ping''
        \<and> rateLimited limitedEnv ''gemini-2.5-flash-lite'' ''ping''
        \<and> (\<forall>tr. generateContent limitedEnv tr ''gemini-3-flash'' ''ping'' = Inr ''pong'')"
    by (simp add: rateLimited_limitedEnv) (simp add: limitedEnv_def quietEnv_def)
  have n: "natToStr 5000 = ''5000''" "natToStr 10000 = ''10000''"
    by (simp_all add: natToStr.simps digitChar_def)
  from callGeminiWithRetry_retry_policy
         [of limitedEnv "''ping''" world0 "''gemini-2.5-flash''" "''gemini-2.5-flash-lite''"
             "''gemini-3-flash''" "''pong''"] l
  show ?thesis
    by (auto simp: callGeminiWithRetry_def MODELS_def world0_def n)
qed

lemma callGeminiLoop_error:
  "fst (callGeminiLoop E p chain w) = Inl e \<Longrightarrow> e = Error ''All Gemini models failed''"
  by (induction chain arbitrary: w) (auto simp: throw_def split: prod.splits sum.splits)

text \<open>
  C3 (as amended). When an attempt of \<open>callGeminiWithRetry\<close> fails with an error that is
  not a rate limit, at any position of the chain, that attempt is the last event of
  the call and the call fails with that very error: no later attempt, no later model.
  (The intent-parsing call of the GitHub agent, \<open>callGemini\<close>, is a different loop: it
  goes on to the next model after any failure, and its only error is that all models
  failed.)
\<close>

theorem callGeminiWithRetry_propagates:
  assumes "callGeminiWithRetry E prompt w = (res, w')"
    and "events w' = events w @ pre @ Generate m p (Inl e) # post"
    and "\<not> is429 (exn_message e)"
  shows "post = [] \<and> res = Inl e"
proof -
  from assms(1) have "modelLoop E prompt MODELS w = (res, w')"
    by (simp add: callGeminiWithRetry_def)
  from modelLoop_refines[OF this] obtain tr where
    tr: "events w' = events w @ tr"
        "spec_complete prompt (schedule MODELS) (outcomes tr) = (tr, Some res)"
    by blast
  with assms(2) have "tr = pre @ Generate m p (Inl e) # post" by simp
  from spec_complete_fatal_last[OF tr(2) this assms(3)] show ?thesis .
qed

lemma not429_broken: "\<not> is429 ''API key not valid''"
  by (simp add: is429_def)

lemma generateContent_brokenFirstEnv:
  "generateContent brokenFirstEnv tr m p =
     (if m = ''gemini-2.5-flash'' then Inl (Error ''API key not valid'') else Inr ''pong'')"
  by (simp add: brokenFirstEnv_def)

theorem callGeminiWithRetry_propagates_witness:
  "\<not> is429 (exn_message (Error ''API key not valid''))
   \<and> callGeminiWithRetry brokenFirstEnv ''ping'' world0 =
       (Inl (Error ''API key not valid''),
        world0\<lparr>events := [Generate ''gemini-2.5-flash'' ''ping'' (Inl (Error ''API key not valid''))]\<rparr>)"
proof -
  obtain res where ev: "callGeminiWithRetry brokenFirstEnv ''ping'' world0 =
       (res, world0\<lparr>events := [Generate ''gemini-2.5-flash'' ''ping'' (Inl (Error ''API key not valid''))]\<rparr>)"
    by (simp add: callGeminiWithRetry_def MODELS_def attemptLoop.simps[of brokenFirstEnv] generate_def
          generateContent_brokenFirstEnv world0_def MAX_RETRIES_def Error_def not429_broken Let_def)
  have n: "\<not> is429 (exn_message (Error ''API key not valid''))"
    by (simp add: Error_def not429_broken)
  from callGeminiWithRetry_propagates
         [where pre = "[]" and post = "[]" and m = "''gemini-2.5-flash''" and p = "''ping''"
            and e = "Error ''API key not valid''", OF ev _ n]
  have "res = Inl (Error ''API key not valid'')"
    by (simp add: world0_def)
  with ev n show ?thesis by simp
qed

text \<open>
  The claim as stated fails for \<open>callGemini\<close>: the first model fails with an error that is
  not a rate limit, and the second model is attempted and answers.
\<close>

theorem callGemini_tries_next_model_counterexample:
  "\<not> is429 (exn_message (Error ''API key not valid''))
   \<and> callGemini brokenFirstEnv ''ping'' world0 =
       (Inr ''pong'',
        world0\<lparr>events :=
          [Generate ''gemini-2.5-flash'' ''ping'' (Inl (Error ''API key not valid'')),
           Generate ''gemini-2.5-flash-lite'' ''ping'' (Inr ''pong'')]\<rparr>)"
  by (simp add: callGemini_def MODEL_CHAIN_def generate_def generateContent_brokenFirstEnv
        world0_def Error_def not429_broken Let_def)

section \<open>Intent Classifier\<close>

lemma andThen_Inl: "fst (m w) = Inl e \<Longrightarrow> fst (andThen m f w) = Inl e"
  by (cases "m w") (auto simp: andThen_def)

lemma classifyPrimary_generative_failure:
  "fst (callGeminiWithRetry E (intentPrompt userPrompt) w) = Inl err
   \<Longrightarrow> fst (classifyPrimary E userPrompt w) = Inl err"
  unfolding classifyPrimary_def by (rule andThen_Inl)

lemma parseUserIntent_cases:
  "fst (parseUserIntent E userPrompt w) =
     (case fst (classifyPrimary E userPrompt w) of
        Inl err \<Rightarrow> Inr (classifyFallback userPrompt err)
      | Inr r \<Rightarrow> Inr r)"
  by (cases "classifyPrimary E userPrompt w")
     (auto simp: parseUserIntent_def try_catch_def ret_def split: sum.splits)

text \<open>
  C6. When the generative path of the classifier fails (the generative call itself, or
  any later step of the \<^verbatim>\<open>try\<close> block), the classifier still returns an Intent, decided in
  this fixed order: if the regular expression for instagram.com URLs matches, the
  platform is instagram, the action is analyze, \<open>fallback\<close> is set and \<open>urls\<close> is exactly
  the list of the matches, from left to right; otherwise, if the keywords of repository
  automation match, the platform is github; otherwise, if the keywords of market data
  match, the platform is crypto; otherwise the platform is unknown.
\<close>

theorem parseUserIntent_fallback_order:
  assumes "fst (callGeminiWithRetry E (intentPrompt userPrompt) w) = Inl err
           \<or> fst (classifyPrimary E userPrompt w) = Inl err"
  shows "\<exists>r. fst (parseUserIntent E userPrompt w) = Inr r
     \<and> (rx_match_all True instaRegex None userPrompt \<noteq> [] \<longrightarrow>
          platform r = JStr ''instagram'' \<and> pi_action r = JStr ''analyze''
          \<and> fallback r = Some True
          \<and> urls r = JArr (map JStr (rx_match_all True instaRegex None userPrompt)))
     \<and> (rx_match_all True instaRegex None userPrompt = []
          \<and> rx_test True githubKeywords None userPrompt \<longrightarrow>
          platform r = JStr ''github'' \<and> urls r = JArr [])
     \<and> (rx_match_all True instaRegex None userPrompt = []
          \<and> \<not> rx_test True githubKeywords None userPrompt
          \<and> rx_test True cryptoKeywords None userPrompt \<longrightarrow>
          platform r = JStr ''crypto'' \<and> urls r = JArr [])
     \<and> (rx_match_all True instaRegex None userPrompt = []
          \<and> \<not> rx_test True githubKeywords None userPrompt
          \<and> \<not> rx_test True cryptoKeywords None userPrompt \<longrightarrow>
          platform r = JStr ''unknown'' \<and> urls r = JArr [])"
proof -
  from assms have "fst (classifyPrimary E userPrompt w) = Inl err"
    by (auto dest: classifyPrimary_generative_failure)
  then have "fst (parseUserIntent E userPrompt w) = Inr (classifyFallback userPrompt err)"
    by (simp add: parseUserIntent_cases)
  then show ?thesis
    by (simp add: classifyFallback_def Let_def)
qed

lemma generateContent_quietEnv:
  "generateContent quietEnv tr m p = Inl (Error ''fetch failed'')"
  by (simp add: quietEnv_def)

lemma not429_fetch: "\<not> is429 ''fetch failed''"
  by (simp add: is429_def)

lemma callGeminiWithRetry_quietEnv:
  "fst (callGeminiWithRetry quietEnv p w) = Inl (Error ''fetch failed'')"
  by (simp add: callGeminiWithRetry_def MODELS_def attemptLoop.simps[of quietEnv] generate_def
        generateContent_quietEnv MAX_RETRIES_def Error_def not429_fetch Let_def)

lemma fallback_samples:
  "rx_match_all True instaRegex None ''see http://instagram.com/p/x star'' = [''http://instagram.com/p/x'']"
  "rx_test True githubKeywords None ''see http://instagram.com/p/x star''"
  "rx_match_all True instaRegex None ''fork btc'' = []"
  "rx_test True githubKeywords None ''fork btc''"
  "rx_test True cryptoKeywords None ''fork btc''"
  "rx_match_all True instaRegex None ''BTC price'' = []"
  "\<not> rx_test True githubKeywords None ''BTC price''"
  "rx_test True cryptoKeywords None ''BTC price''"
  "rx_match_all True instaRegex None ''hello'' = []"
  "\<not> rx_test True githubKeywords None ''hello''"
  "\<not> rx_test True cryptoKeywords None ''hello''"
  "rx_match_all True instaRegex None pullRequestPrompt = []"
  "rx_test True githubKeywords None pullRequestPrompt"
  "rx_match_all True instaRegex None urlPrompt = [''HTTPS://www.Instagram.com/p/abc'']"
  by code_simp+

theorem parseUserIntent_fallback_order_witness:
  "(\<exists>r. fst (parseUserIntent quietEnv ''see http://instagram.com/p/x star'' world0) = Inr r
        \<and> platform r = JStr ''instagram'' \<and> pi_action r = JStr ''analyze''
        \<and> fallback r = Some True \<and> urls r = JArr [JStr ''http://instagram.com/p/x''])
   \<and> (\<exists>r. fst (parseUserIntent quietEnv ''fork btc'' world0) = Inr r
        \<and> platform r = JStr ''github'')
   \<and> (\<exists>r. fst (parseUserIntent quietEnv ''BTC price'' world0) = Inr r
        \<and> platform r = JStr ''crypto'')
   \<and> (\<exists>r. fst (parseUserIntent quietEnv ''hello'' world0) = Inr r
        \<and> platform r = JStr ''unknown'')
   \<and> (\<exists>r. fst (parseUserIntent quietEnv pullRequestPrompt world0) = Inr r
        \<and> platform r = JStr ''github'')
   \<and> (\<exists>r. fst (parseUserIntent quietEnv urlPrompt world0) = Inr r
        \<and> platform r = JStr ''instagram''
        \<and> urls r = JArr [JStr ''HTTPS://www.Instagram.com/p/abc''])"
  using parseUserIntent_fallback_order
          [of quietEnv "''see http://instagram.com/p/x star''" world0 "Error ''fetch failed''"]
        parseUserIntent_fallback_order
          [of quietEnv "''fork btc''" world0 "Error ''fetch failed''"]
        parseUserIntent_fallback_order
          [of quietEnv "''BTC price''" world0 "Error ''fetch failed''"]
        parseUserIntent_fallback_order
          [of quietEnv "''hello''" world0 "Error ''fetch failed''"]
        parseUserIntent_fallback_order
          [of quietEnv pullRequestPrompt world0 "Error ''fetch failed''"]
        parseUserIntent_fallback_order
          [of quietEnv urlPrompt world0 "Error ''fetch failed''"]
  by (auto simp: callGeminiWithRetry_quietEnv fallback_samples)

text \<open>
  The texts beyond ASCII: white space at the ends of a text, the characters of a text
  and its length in code units, on a text with a no-break space and an emoji.
\<close>

lemma unicode_samples:
  "trim (nbsp @ '' a'' @ nbsp @ ''b '' @ [CHR 0xEF, CHR 0xBB, CHR 0xBF, CHR 0x0A]) = ''a'' @ nbsp @ ''b''"
  "trim [CHR 0xC3, CHR 0xA0] = [CHR 0xC3, CHR 0xA0]"
  "codePoints (''a'' @ nbsp @ e_outbox @ ''b'') = [''a'', nbsp, e_outbox, ''b'']"
  "utf16Length (''a'' @ nbsp @ e_outbox @ ''b'') = 5"
  "length (codeUnits (''a'' @ nbsp @ e_outbox @ ''b'')) = 5"
  "rx_match True Space None (nbsp @ ''x'') = [2]"
  "rx_match True (NoSpaceNor ''<>'') None (e_outbox @ ''x'') = [4]"
  "rx_match True (NoSpaceNor ''<>'') None (nbsp @ ''x'') = []"
  by code_simp+

text \<open>
  The flag \<^verbatim>\<open>i\<close> and the word boundary: letters are folded only under the flag, a keyword
  inside a longer word does not match, a character beyond ASCII bounds a word, and the
  control character U+0085 is no white space.
\<close>

lemma regex_samples:
  "rx_match False (Lit ''json'') None ''JSON'' = []"
  "rx_match True (Lit ''json'') None ''JSON'' = [4]"
  "\<not> rx_test True githubKeywords None ''starfork''"
  "rx_test True githubKeywords None (''caf'' @ [CHR 0xC3, CHR 0xA9] @ ''pr'')"
  "rx_test True cryptoKeywords None (''Market'' @ [CHR 0xE2, CHR 0x80, CHR 0xA8, CHR 0x20] @ ''CAP'')"
  "\<not> rx_test True cryptoKeywords None (''market'' @ [CHR 0xC2, CHR 0x85] @ ''cap'')"
  by code_simp+

lemma js_or_analyze: "truthy (js_or a (JStr ''analyze''))"
  by (simp add: js_or_def truthy_def)

lemma classifyPrimary_action:
  "fst (classifyPrimary E userPrompt w) = Inr r \<Longrightarrow> truthy (pi_action r)"
  unfolding classifyPrimary_def
  by (auto simp: andThen_def ret_def lift_def js_or_analyze
           split: prod.splits sum.splits)

text \<open>
  C7 (as amended). On the fallback path, an Intent whose platform is unknown has the
  action \<^verbatim>\<open>null\<close> (and is marked as failed), and every other Intent has an action. On the
  generative path the action is never \<^verbatim>\<open>null\<close>: a missing or \<^verbatim>\<open>null\<close> action of the model's
  answer is replaced by the default "analyze", whatever the platform is.
\<close>

theorem parseUserIntent_unknown_action:
  assumes "fst (parseUserIntent E userPrompt w) = Inr r"
  shows "(\<forall>err. fst (classifyPrimary E userPrompt w) = Inl err \<longrightarrow>
            (platform r = JStr ''unknown'' \<longrightarrow> pi_action r = JNull \<and> \<not> pi_success r)
            \<and> (platform r \<noteq> JStr ''unknown'' \<longrightarrow> pi_action r \<noteq> JNull))
       \<and> (\<forall>r'. fst (classifyPrimary E userPrompt w) = Inr r' \<longrightarrow>
            r = r' \<and> pi_action r \<noteq> JNull \<and> truthy (pi_action r))"
proof (intro conjI allI impI)
  fix err
  assume e: "fst (classifyPrimary E userPrompt w) = Inl err"
  with assms have r: "r = classifyFallback userPrompt err"
    by (simp add: parseUserIntent_cases)
  { assume "platform r = JStr ''unknown''"
    with r show "pi_action r = JNull" "\<not> pi_success r"
      by (auto simp: classifyFallback_def Let_def split: if_splits) }
  { assume "platform r \<noteq> JStr ''unknown''"
    with r show "pi_action r \<noteq> JNull"
      by (auto simp: classifyFallback_def Let_def split: if_splits) }
next
  fix r'
  assume p: "fst (classifyPrimary E userPrompt w) = Inr r'"
  with assms show "r = r'" by (simp add: parseUserIntent_cases)
  with classifyPrimary_action[OF p] show "truthy (pi_action r)" by simp
  then show "pi_action r \<noteq> JNull" by (auto simp: truthy_def)
qed

lemma unknownEnv_fields:
  "generateContent unknownEnv tr m p = Inr unknownResponse"
  "JSON_parse unknownEnv s = (if s = unknownText
                 then Inr (JObj [(''platform'', JStr ''unknown''), (''urls'', JArr []),
                                 (''action'', JNull), (''userQuery'', JStr [])])
                 else Inl (Error ''Unexpected token''))"
  by (simp_all add: unknownEnv_def)

lemma stripFences_unknownText:
  "stripFences unknownResponse = unknownText"
  by code_simp

lemma classifyPrimary_unknownEnv:
  "fst (classifyPrimary unknownEnv ''hello'' world0) =
     Inr \<lparr>pi_success = True, platform = JStr ''unknown'', urls = JArr [],
          pi_action = JStr ''analyze'', userQuery = JStr ''hello'', pi_error = None,
          fallback = None\<rparr>"
  by (simp add: classifyPrimary_def callGeminiWithRetry_def MODELS_def
        attemptLoop.simps[of unknownEnv] generate_def unknownEnv_fields stripFences_unknownText
        MAX_RETRIES_def Let_def andThen_def lift_def ret_def getProp_def bindE_def js_or_def
        truthy_def nullish_def)

theorem parseUserIntent_unknown_action_witness:
  "fst (parseUserIntent quietEnv ''hello'' world0) =
     Inr \<lparr>pi_success = False, platform = JStr ''unknown'', urls = JArr [], pi_action = JNull,
          userQuery = JStr ''hello'', pi_error = Some ''fetch failed'', fallback = None\<rparr>
   \<and> pi_action \<lparr>pi_success = True, platform = JStr ''unknown'', urls = JArr [],
          pi_action = JStr ''analyze'', userQuery = JStr ''hello'', pi_error = None,
          fallback = None\<rparr> \<noteq> JNull"
proof -
  have p: "fst (classifyPrimary quietEnv ''hello'' world0) = Inl (Error ''fetch failed'')"
    by (rule classifyPrimary_generative_failure) (rule callGeminiWithRetry_quietEnv)
  then have f: "fst (parseUserIntent quietEnv ''hello'' world0) =
     Inr \<lparr>pi_success = False, platform = JStr ''unknown'', urls = JArr [], pi_action = JNull,
          userQuery = JStr ''hello'', pi_error = Some ''fetch failed'', fallback = None\<rparr>"
    by (simp add: parseUserIntent_cases classifyFallback_def fallback_samples Let_def Error_def)
  have g: "fst (parseUserIntent unknownEnv ''hello'' world0) =
     Inr \<lparr>pi_success = True, platform = JStr ''unknown'', urls = JArr [],
          pi_action = JStr ''analyze'', userQuery = JStr ''hello'', pi_error = None,
          fallback = None\<rparr>"
    by (simp add: parseUserIntent_cases classifyPrimary_unknownEnv)
  from parseUserIntent_unknown_action[OF f] parseUserIntent_unknown_action[OF g] f
    classifyPrimary_unknownEnv
  show ?thesis by simp
qed

text \<open>
  The claim as stated fails on the generative path: the model answers with the platform
  unknown and the action \<^verbatim>\<open>null\<close>, and the Intent returned has the platform unknown and the
  action "analyze".
\<close>

theorem parseUserIntent_unknown_with_action_counterexample:
  "fst (parseUserIntent unknownEnv ''hello'' world0) =
     Inr \<lparr>pi_success = True, platform = JStr ''unknown'', urls = JArr [],
          pi_action = JStr ''analyze'', userQuery = JStr ''hello'', pi_error = None,
          fallback = None\<rparr>"
  by (simp add: parseUserIntent_cases classifyPrimary_unknownEnv)

section \<open>Action Dispatcher: the authorization gate\<close>

lemma callGeminiLoop_quiet:
  "callGeminiLoop E p chain w = (r, w') \<Longrightarrow>
   tokenStore w' = tokenStore w \<and> httpCalls (events w') = httpCalls (events w)"
proof (induction chain arbitrary: w)
  case Nil
  then show ?case by (simp add: throw_def)
next
  case (Cons m chain)
  obtain out w1 where g: "generate E m p w = (out, w1)" by force
  then have w1: "tokenStore w1 = tokenStore w" "httpCalls (events w1) = httpCalls (events w)"
    by (auto simp: generate_def Let_def httpCalls_def)
  show ?case
  proof (cases out)
    case (Inl e)
    with Cons.prems g have "callGeminiLoop E p chain w1 = (r, w')" by simp
    from Cons.IH[OF this] w1 show ?thesis by simp
  next
    case (Inr t)
    with Cons.prems g w1 show ?thesis by simp
  qed
qed

lemma andThen_lift:
  "andThen (lift x) f w = (case x of Inl e \<Rightarrow> (Inl e, w) | Inr v \<Rightarrow> f v w)"
  by (simp add: andThen_def lift_def split: sum.splits)

lemma parseIntent_cases:
  "parseIntent E userPrompt w = (r, w1) \<Longrightarrow>
   tokenStore w1 = tokenStore w \<and> httpCalls (events w1) = httpCalls (events w)
   \<and> (\<forall>intent. r = Inr intent \<longrightarrow>
         (\<exists>act s. getProp intent ''action'' = Inr act \<and> toStr E act = Inr s))"
proof -
  assume a: "parseIntent E userPrompt w = (r, w1)"
  obtain r0 w0 where c: "callGemini E (githubParsePrompt userPrompt) w = (r0, w0)" by force
  then have q: "tokenStore w0 = tokenStore w \<and> httpCalls (events w0) = httpCalls (events w)"
    unfolding callGemini_def by (rule callGeminiLoop_quiet)
  from a c have "w1 = w0"
    by (auto simp: parseIntent_def andThen_def lift_def ret_def split: sum.splits prod.splits)
  moreover from a c have "\<forall>intent. r = Inr intent \<longrightarrow>
         (\<exists>act s. getProp intent ''action'' = Inr act \<and> toStr E act = Inr s)"
    by (auto simp: parseIntent_def andThen_def lift_def ret_def bindE_def
             split: sum.splits prod.splits)
  ultimately show ?thesis using q by simp
qed

text \<open>
  C1. When the identity has no Credential Record and the parsed intent has an action
  other than the two ungated ones (\<^verbatim>\<open>list_user_repos\<close>, \<^verbatim>\<open>get_user_profile\<close>), \<open>runGitHubAgent\<close>
  returns the needs-authorization result with the authorization URL generated for the
  identity at that moment, and the whole call makes no HTTP request (and leaves the
  token store as it was).
\<close>

theorem runGitHubAgent_gate:
  assumes "parseIntent E userPrompt w = (Inr intent, w1)"
    and "getProp intent ''action'' \<noteq> Inr (JStr ''list_user_repos'')"
    and "getProp intent ''action'' \<noteq> Inr (JStr ''get_user_profile'')"
    and "\<not> isConnected w userId"
  shows "runGitHubAgent E userPrompt userId w =
           (Inr (needsAuthResult (getAuthorizationUrl E userId)
                   (authRequiredMessage (getAuthorizationUrl E userId))), w1)
         \<and> httpCalls (events w1) = httpCalls (events w)
         \<and> tokenStore w1 = tokenStore w"
proof -
  from parseIntent_cases[OF assms(1)] obtain act where
    act: "getProp intent ''action'' = Inr act"
    and q: "tokenStore w1 = tokenStore w" "httpCalls (events w1) = httpCalls (events w)"
    by auto
  from q assms(4) have "\<not> isConnected w1 userId" by (simp add: isConnected_def)
  with assms(1-3) act q show ?thesis
    by (simp add: runGitHubAgent_def andThen_lift PUBLIC_ACTIONS_def ret_def authRequiredMessage_def)
qed


lemma stripFences_samples:
  "stripFences starText = starText" "stripFences deleteText = deleteText"
  by code_simp+

lemma starEnv_fields:
  "generateContent starEnv tr m p = Inr starText"
  "JSON_parse starEnv s = (if s = starText then Inr starIntent else Inl (Error ''Unexpected token''))"
  "GITHUB_CLIENT_ID starEnv = Some ''Iv1.0123456789abcdef''"
  "GITHUB_REDIRECT_URI starEnv = Some ''http://localhost:6000/auth/github/callback''"
  by (simp_all add: starEnv_def quietEnv_def)

lemma deleteEnv_fields:
  "generateContent deleteEnv tr m p = Inr deleteText"
  "JSON_parse deleteEnv s = (if s = deleteText then Inr deleteIntent else Inl (Error ''Unexpected token''))"
  "GITHUB_CLIENT_ID deleteEnv = Some ''Iv1.0123456789abcdef''"
  "GITHUB_REDIRECT_URI deleteEnv = Some ''http://localhost:6000/auth/github/callback''"
  by (simp_all add: deleteEnv_def quietEnv_def)

lemma parseIntent_starEnv:
  "parseIntent starEnv p w =
     (Inr starIntent,
      w\<lparr>events := events w @ [Generate ''gemini-2.5-flash'' (githubParsePrompt p) (Inr starText)]\<rparr>)"
  by (simp add: parseIntent_def callGemini_def MODEL_CHAIN_def generate_def starEnv_fields
        stripFences_samples andThen_def lift_def ret_def starIntent_def getProp_def bindE_def
        Let_def)

lemma parseIntent_deleteEnv:
  "parseIntent deleteEnv p w =
     (Inr deleteIntent,
      w\<lparr>events := events w @ [Generate ''gemini-2.5-flash'' (githubParsePrompt p) (Inr deleteText)]\<rparr>)"
  by (simp add: parseIntent_def callGemini_def MODEL_CHAIN_def generate_def deleteEnv_fields
        stripFences_samples andThen_def lift_def ret_def deleteIntent_def getProp_def bindE_def
        Let_def)

lemma authUrl_alice:
  "getAuthorizationUrl starEnv ''alice'' =
     ''https://github.com/login/oauth/authorize?client_id=Iv1.0123456789abcdef&redirect_uri=http%3A%2F%2Flocalhost%3A6000%2Fauth%2Fgithub%2Fcallback&scope=repo+user+read%3Aorg+workflow&state=alice''"
  "getAuthorizationUrl deleteEnv ''alice'' = getAuthorizationUrl starEnv ''alice''"
  by code_simp+

theorem runGitHubAgent_gate_witness:
  "fst (runGitHubAgent starEnv ''star the repo facebook/react'' ''alice'' world0) =
     Inr (emptyResult\<lparr>needsAuth := Some True,
            authUrl := Some ''https://github.com/login/oauth/authorize?client_id=Iv1.0123456789abcdef&redirect_uri=http%3A%2F%2Flocalhost%3A6000%2Fauth%2Fgithub%2Fcallback&scope=repo+user+read%3Aorg+workflow&state=alice'',
            message := Some (authRequiredMessage (getAuthorizationUrl starEnv ''alice''))\<rparr>)
   \<and> httpCalls (events (snd (runGitHubAgent starEnv ''star the repo facebook/react'' ''alice'' world0))) = []"
proof -
  have a: "getProp starIntent ''action'' \<noteq> Inr (JStr ''list_user_repos'')"
    "getProp starIntent ''action'' \<noteq> Inr (JStr ''get_user_profile'')"
    by (simp_all add: starIntent_def getProp_def)
  have c: "\<not> isConnected world0 ''alice''"
    by (simp add: isConnected_def world0_def)
  from runGitHubAgent_gate[OF parseIntent_starEnv a c, of "''star the repo facebook/react''"]
  show ?thesis
    by (simp add: needsAuthResult_def authUrl_alice world0_def httpCalls_def)
qed

lemma prompt_lists_delete_repo:
  "str_includes (githubParsePrompt userPrompt) ''- delete_repo: Delete a repo''"
  by (simp add: githubParsePrompt_def sq_def nl_def emdash_def)

text \<open>
  C9 (as amended). The intent-parsing prompt lists \<^verbatim>\<open>delete_repo\<close> among the actions, but the
  dispatcher has no case for it: for every parsed intent whose action is outside the
  eleven handled ones (\<^verbatim>\<open>delete_repo\<close> among them), \<open>runGitHubAgent\<close> makes no HTTP request
  and leaves the token store as it was; it returns the failed result "Unknown action:
  ..." when the identity has a Credential Record, and the needs-authorization result
  when it has none (the authorization gate comes before the dispatch).
\<close>

theorem runGitHubAgent_unhandled_action:
  assumes "parseIntent E userPrompt w = (Inr intent, w1)"
    and "getProp intent ''action'' = Inr act"
    and "act \<notin> JStr ` {''get_profile'', ''list_repos'', ''list_user_repos'', ''get_user_profile'',
                         ''create_repo'', ''star_repo'', ''create_issue'', ''list_issues'',
                         ''get_repo'', ''create_pr'', ''push_project''}"
  shows "str_includes (githubParsePrompt userPrompt) ''- delete_repo: Delete a repo''
         \<and> (\<exists>s. toStr E act = Inr s
           \<and> runGitHubAgent E userPrompt userId w =
               (Inr (if isConnected w userId
                     then emptyResult\<lparr>error := Some (''Unknown action: '' @ s
                            @ ''. Try: list repos, create repo, star repo, create issue, etc.'')\<rparr>
                     else needsAuthResult (getAuthorizationUrl E userId)
                            (authRequiredMessage (getAuthorizationUrl E userId))),
                w1)
           \<and> httpCalls (events w1) = httpCalls (events w)
           \<and> tokenStore w1 = tokenStore w)"
proof -
  from parseIntent_cases[OF assms(1)] assms(2) obtain s where
    s: "toStr E act = Inr s"
    and q: "tokenStore w1 = tokenStore w" "httpCalls (events w1) = httpCalls (events w)"
    by auto
  from q have c: "isConnected w1 userId = isConnected w userId" by (simp add: isConnected_def)
  have "runGitHubAgent E userPrompt userId w =
               (Inr (if isConnected w userId
                     then emptyResult\<lparr>error := Some (''Unknown action: '' @ s
                            @ ''. Try: list repos, create repo, star repo, create issue, etc.'')\<rparr>
                     else needsAuthResult (getAuthorizationUrl E userId)
                            (authRequiredMessage (getAuthorizationUrl E userId))),
                w1)"
    using assms s c
    by (simp add: runGitHubAgent_def andThen_lift PUBLIC_ACTIONS_def ret_def execAction_def
          try_catch_def andThen_def lift_def bindE_def image_iff)
  with s q prompt_lists_delete_repo show ?thesis by blast
qed

theorem runGitHubAgent_unhandled_action_witness:
  "fst (runGitHubAgent deleteEnv ''delete the repo octocat/hello'' ''alice'' aliceWorld) =
     Inr (emptyResult\<lparr>error := Some
       ''Unknown action: delete_repo. Try: list repos, create repo, star repo, create issue, etc.''\<rparr>)
   \<and> httpCalls (events (snd (runGitHubAgent deleteEnv ''delete the repo octocat/hello'' ''alice'' aliceWorld))) = []
   \<and> isConnected (snd (runGitHubAgent deleteEnv ''delete the repo octocat/hello'' ''alice'' aliceWorld)) ''alice''"
proof -
  have a: "getProp deleteIntent ''action'' = Inr (JStr ''delete_repo'')"
    by (simp add: deleteIntent_def getProp_def)
  have b: "JStr ''delete_repo'' \<notin> JStr ` {''get_profile'', ''list_repos'', ''list_user_repos'', ''get_user_profile'',
                         ''create_repo'', ''star_repo'', ''create_issue'', ''list_issues'',
                         ''get_repo'', ''create_pr'', ''push_project''}"
    by (simp add: image_iff)
  have c: "isConnected aliceWorld ''alice''"
    by (simp add: isConnected_def aliceWorld_def)
  from runGitHubAgent_unhandled_action
         [where userId = "''alice''", OF parseIntent_deleteEnv a b,
          of "''delete the repo octocat/hello''" aliceWorld] c
  show ?thesis
    by (auto simp: aliceWorld_def httpCalls_def isConnected_def)
qed

text \<open>
  The claim as stated fails for an identity without a Credential Record: the intent
  \<^verbatim>\<open>delete_repo\<close> is answered with the needs-authorization result, not with a failed
  result, and no error message is set.
\<close>

theorem runGitHubAgent_delete_unconnected_counterexample:
  "fst (runGitHubAgent deleteEnv ''delete the repo octocat/hello'' ''alice'' world0) =
     Inr (needsAuthResult (getAuthorizationUrl deleteEnv ''alice'')
            (authRequiredMessage (getAuthorizationUrl deleteEnv ''alice'')))
   \<and> error (needsAuthResult (getAuthorizationUrl deleteEnv ''alice'')
            (authRequiredMessage (getAuthorizationUrl deleteEnv ''alice''))) = None
   \<and> needsAuth (needsAuthResult (getAuthorizationUrl deleteEnv ''alice'')
            (authRequiredMessage (getAuthorizationUrl deleteEnv ''alice''))) = Some True"
  by (simp add: runGitHubAgent_def parseIntent_deleteEnv andThen_lift deleteIntent_def getProp_def
        PUBLIC_ACTIONS_def isConnected_def world0_def ret_def needsAuthResult_def emptyResult_def)

section \<open>Credential-invalid signal: the record is deleted, the user is asked to reconnect\<close>

lemma has401_simps [simp]:
  "has401 [] = False" "has401 (xs @ ys) = (has401 xs \<or> has401 ys)"
  "has401 [ev] = is401 ev"
  by (auto simp: has401_def)



lemma strict_throw: "strict u (throw e)"
  by (simp add: strict_def throw_def)











lemma strict_generate: "strict u (generate E m p)"
  unfolding strict_def
proof
  fix w
  show "\<exists>tr. events (snd (generate E m p w)) = events w @ tr
           \<and> tokenStore (snd (generate E m p w)) = (if has401 tr then (tokenStore w)(u := None) else tokenStore w)
           \<and> (has401 tr \<longrightarrow> fst (generate E m p w) = Inl expiredError)"
    by (intro exI[of _ "[Generate m p (generateContent E (events w) m p)]"])
       (simp add: generate_def Let_def)
qed
















section \<open>Every dispatch ends in one of the three outcome states\<close>

lemma yields_ret: "P x \<Longrightarrow> yields (ret x) P"
  by (simp add: yields_def ret_def)

lemma yields_andThen: "(\<And>x. yields (f x) P) \<Longrightarrow> yields (andThen m f) P"
  by (auto simp: yields_def andThen_def split: prod.splits sum.splits)
     (metis fst_conv sum.simps(6))

lemma yields_if: "yields a P \<Longrightarrow> yields b P \<Longrightarrow> yields (if c then a else b) P"
  by simp

lemma yieldsD: "yields m P \<Longrightarrow> fst (m w) = Inr x \<Longrightarrow> P x"
  by (auto simp: yields_def split: sum.splits dest: spec[of _ w])

lemma failed_outcome: "outcomeOf (emptyResult\<lparr>error := Some msg\<rparr>) = Some Failed"
  by (simp add: outcomeOf_def emptyResult_def)

lemma needsAuth_outcome: "outcomeOf (needsAuthResult link msg) = Some NeedsAuthorization"
  by (simp add: outcomeOf_def needsAuthResult_def emptyResult_def)

lemma ok_outcome:
  "outcomeOf (emptyResult\<lparr>success := True, action := Some act, summary := Some txt,
                          rawData := Some result\<rparr>) = Some Ok"
  by (simp add: outcomeOf_def emptyResult_def)

lemma cases_end_well:
  "yields (case_get_profile E userId) endsWell"
  "yields (case_list_repos E userId) endsWell"
  "yields (case_list_user_repos E intent) endsWell"
  "yields (case_get_user_profile E intent) endsWell"
  "yields (case_create_repo E intent userId) endsWell"
  "yields (case_star_repo E intent userId) endsWell"
  "yields (case_create_issue E intent userId) endsWell"
  "yields (case_list_issues E intent userId) endsWell"
  "yields (case_get_repo E intent userId) endsWell"
  "yields (case_create_pr E intent userId) endsWell"
  "yields (case_push_project E intent userId) endsWell"
  unfolding case_get_profile_def case_list_repos_def case_list_user_repos_def
    case_get_user_profile_def case_create_repo_def case_star_repo_def case_create_issue_def
    case_list_issues_def case_get_repo_def case_create_pr_def case_push_project_def
  by (intro yields_andThen yields_if yields_ret; simp add: endsWell_def failed_outcome)+

lemma yields_andThen_post:
  "yields m Q \<Longrightarrow> (\<And>x. Q x \<Longrightarrow> yields (f x) P) \<Longrightarrow> yields (andThen m f) P"
  unfolding yields_def andThen_def
proof
  assume m: "\<forall>w. case fst (m w) of Inl e \<Rightarrow> True | Inr x \<Rightarrow> Q x"
    and f: "\<And>x. Q x \<Longrightarrow> \<forall>w. case fst (f x w) of Inl e \<Rightarrow> True | Inr x \<Rightarrow> P x"
  fix w
  obtain r w1 where mw: "m w = (r, w1)" by force
  show "case fst (case m w of (Inl e, w') \<Rightarrow> (Inl e, w') | (Inr x, w') \<Rightarrow> f x w') of
          Inl e \<Rightarrow> True | Inr x \<Rightarrow> P x"
  proof (cases r)
    case (Inl e)
    with mw show ?thesis by simp
  next
    case (Inr x)
    with m mw have "Q x" by (auto dest: spec[of _ w])
    from f[OF this] mw Inr show ?thesis by simp
  qed
qed

lemma execAction_outcome:
  "yields (execAction E intent userId) (\<lambda>r. outcomeOf r = Some Ok \<or> outcomeOf r = Some Failed)"
  unfolding execAction_def
proof (rule yields_andThen, rule yields_andThen_post[where Q = endsWell])
  fix act
  show "yields
          (if act = JStr ''get_profile'' then case_get_profile E userId
           else if act = JStr ''list_repos'' then case_list_repos E userId
           else if act = JStr ''list_user_repos'' then case_list_user_repos E intent
           else if act = JStr ''get_user_profile'' then case_get_user_profile E intent
           else if act = JStr ''create_repo'' then case_create_repo E intent userId
           else if act = JStr ''star_repo'' then case_star_repo E intent userId
           else if act = JStr ''create_issue'' then case_create_issue E intent userId
           else if act = JStr ''list_issues'' then case_list_issues E intent userId
           else if act = JStr ''get_repo'' then case_get_repo E intent userId
           else if act = JStr ''create_pr'' then case_create_pr E intent userId
           else if act = JStr ''push_project'' then case_push_project E intent userId
           else andThen (lift (render E
             [T ''Unknown action: '', V (Inr act),
              T ''. Try: list repos, create repo, star repo, create issue, etc.'']))
             (\<lambda>msg. ret (Return (emptyResult\<lparr>error := Some msg\<rparr>))))
          endsWell"
    by (intro yields_if cases_end_well yields_andThen yields_ret)
       (simp add: endsWell_def failed_outcome)
next
  fix act ended
  assume "endsWell ended"
  then show "yields (case ended of Return r \<Rightarrow> ret r
              | Break result txt \<Rightarrow>
                  ret (emptyResult\<lparr>success := True, action := Some act, summary := Some txt,
                                    rawData := Some result\<rparr>))
          (\<lambda>r. outcomeOf r = Some Ok \<or> outcomeOf r = Some Failed)"
    by (cases ended) (simp_all add: endsWell_def yields_ret ok_outcome)
qed

lemma runGitHubAgent_outcome:
  "\<exists>r out. fst (runGitHubAgent E userPrompt userId w) = Inr r \<and> outcomeOf r = Some out"
proof -
  obtain p w1 where parse: "parseIntent E userPrompt w = (p, w1)" by force
  show ?thesis
  proof (cases p)
    case (Inl err)
    with parse show ?thesis
      by (simp add: runGitHubAgent_def ret_def failed_outcome)
  next
    case (Inr intent)
    with parseIntent_cases[OF parse] obtain act where act: "getProp intent ''action'' = Inr act"
      by auto
    show ?thesis
    proof (cases "act \<notin> set (map JStr PUBLIC_ACTIONS) \<and> \<not> isConnected w1 userId")
      case True
      with parse Inr act show ?thesis
        by (simp add: runGitHubAgent_def andThen_lift ret_def needsAuth_outcome)
    next
      case False
      obtain b w2 where body: "execAction E intent userId w1 = (b, w2)" by force
      show ?thesis
      proof (cases b)
        case (Inl err)
        with parse Inr act False body show ?thesis
          by (simp add: runGitHubAgent_def andThen_lift ret_def try_catch_def
                needsAuth_outcome failed_outcome)
      next
        case inr: (Inr r)
        with yieldsD[OF execAction_outcome, of E intent userId w1 r] body
        have "outcomeOf r = Some Ok \<or> outcomeOf r = Some Failed" by simp
        with parse Inr act False body inr show ?thesis
          by (auto simp: runGitHubAgent_def andThen_lift ret_def try_catch_def)
      qed
    qed
  qed
qed

lemma execCrypto_outcome: "yields (execCrypto E intent) cryptoEndsWell"
  unfolding execCrypto_def
  by (intro yields_andThen yields_if yields_ret;
      simp add: cryptoEndsWell_def cryptoOutcomeOf_def emptyCryptoResult_def)+

lemma runCryptoAgent_outcome:
  "\<exists>r out. fst (runCryptoAgent E userPrompt w) = Inr r \<and> cryptoOutcomeOf r = Some out
            \<and> out \<noteq> NeedsAuthorization"
proof -
  obtain p w1 where parse: "parseCryptoIntent E userPrompt w = (p, w1)" by force
  show ?thesis
  proof (cases p)
    case (Inl err)
    with parse show ?thesis
      by (simp add: runCryptoAgent_def ret_def cryptoOutcomeOf_def emptyCryptoResult_def)
  next
    case (Inr intent)
    obtain b w2 where body: "execCrypto E intent w1 = (b, w2)" by force
    show ?thesis
    proof (cases b)
      case (Inl err)
      with parse Inr body show ?thesis
        by (simp add: runCryptoAgent_def ret_def try_catch_def cryptoOutcomeOf_def
              emptyCryptoResult_def)
    next
      case inr: (Inr r)
      with yieldsD[OF execCrypto_outcome, of E intent w1 r] body
      have "cryptoEndsWell r" by simp
      with parse Inr body inr show ?thesis
        by (auto simp: runCryptoAgent_def try_catch_def cryptoEndsWell_def)
    qed
  qed
qed

text \<open>
  C8. For every prompt, identity, world and behaviour of the external providers,
  \<open>runGitHubAgent\<close> and \<open>runCryptoAgent\<close> return normally (they never throw), and the
  result they return is in one of the outcome states \<open>ok\<close>, \<open>needsAuthorization\<close>,
  \<open>failed\<close>; \<open>outcomeOf\<close> assigns at most one state to a result.
\<close>

theorem dispatch_outcomes:
  "(\<exists>r out. fst (runGitHubAgent E userPrompt userId w) = Inr r \<and> outcomeOf r = Some out)
   \<and> (\<exists>r out. fst (runCryptoAgent E userPrompt w) = Inr r \<and> cryptoOutcomeOf r = Some out)"
  using runGitHubAgent_outcome runCryptoAgent_outcome by blast

theorem dispatch_outcomes_witness:
  "(\<exists>r. fst (runGitHubAgent starredEnv ''star the repo facebook/react'' ''alice'' aliceWorld) = Inr r
        \<and> outcomeOf r = Some Ok)
   \<and> (\<exists>r. fst (runCryptoAgent quietEnv ''price of BTC'' world0) = Inr r
        \<and> cryptoOutcomeOf r = Some Failed)"
proof -
  have a: "outcomeOf (projr (fst (runGitHubAgent starredEnv ''star the repo facebook/react''
             ''alice'' aliceWorld))) = Some Ok"
    by code_simp
  have b: "cryptoOutcomeOf (projr (fst (runCryptoAgent quietEnv ''price of BTC'' world0))) = Some Failed"
    by code_simp
  from dispatch_outcomes[of starredEnv "''star the repo facebook/react''" "''alice''" aliceWorld]
  obtain r where r: "fst (runGitHubAgent starredEnv ''star the repo facebook/react'' ''alice'' aliceWorld) = Inr r"
    by blast
  from dispatch_outcomes[of quietEnv "''price of BTC''" "''alice''" world0]
  obtain c where c: "fst (runCryptoAgent quietEnv ''price of BTC'' world0) = Inr c"
    by blast
  from a r have "outcomeOf r = Some Ok" by simp
  moreover from b c have "cryptoOutcomeOf c = Some Failed" by simp
  ultimately show ?thesis using r c by blast
qed

section \<open>The multi-file push records every file\<close>

lemma contentHtmlUrl_ok: "(\<exists>h. contentHtmlUrl result = Inr h) = (\<not> nullish result)"
  by (cases result) (auto simp: contentHtmlUrl_def getProp_def bindE_def nullish_def
        split: option.splits js.splits)

lemma fileResult_fields:
  "path (fileResult f out) = JStr (fe_path f)"
  "pr_success (fileResult f out) = written out"
proof -
  show "path (fileResult f out) = JStr (fe_path f)"
    by (simp add: fileResult_def split: sum.splits)
  show "pr_success (fileResult f out) = written out"
  proof (cases out)
    case (Inl e)
    then show ?thesis by (simp add: fileResult_def written_def bindE_def)
  next
    case (Inr result)
    with contentHtmlUrl_ok[of result] show ?thesis
      by (auto simp: fileResult_def written_def bindE_def split: sum.splits)
  qed
qed

lemma pushFile_fileJs:
  "pushFile E owner repo (fileJs f) commitMessage userId w =
     (case createOrUpdateFile E owner repo (JStr (fe_path f)) (JStr (fe_content f))
             commitMessage userId w of
        (out, w1) \<Rightarrow> (Inr (fileResult f out), w1))"
  by (simp add: pushFile_def fileJs_def fileResult_def try_catch_def andThen_def lift_def ret_def
        getProp_def bindE_def split: prod.splits sum.splits)

lemma pushLoop_writes:
  "writes E owner repo fs commitMessage userId w = (outs, w') \<Longrightarrow>
   pushLoop E owner repo (map fileJs fs) commitMessage userId acc w =
     (Inr (acc @ map2 fileResult fs outs), w')"
proof (induction fs arbitrary: acc w outs)
  case Nil
  then show ?case by (simp add: ret_def)
next
  case (Cons f fs)
  obtain out w1 where c: "createOrUpdateFile E owner repo (JStr (fe_path f)) (JStr (fe_content f))
             commitMessage userId w = (out, w1)" by force
  obtain rest w2 where r: "writes E owner repo fs commitMessage userId w1 = (rest, w2)" by force
  from Cons.prems c r have o: "outs = out # rest" "w' = w2" by simp_all
  from r o have r': "writes E owner repo fs commitMessage userId w1 = (rest, w')" by simp
  from Cons.IH[OF r', of "acc @ [fileResult f out]"] c o show ?case
    by (simp add: andThen_def pushFile_fileJs)
qed

lemma writes_length: "writes E owner repo fs commitMessage userId w = (outs, w') \<Longrightarrow> length outs = length fs"
  by (induction fs arbitrary: w outs) (auto split: prod.splits)

lemma pushProject_writes:
  assumes "writes E (JStr owner) (JStr repo) fs commitMessage userId w = (outs, w')"
  shows "pushProject E (JStr owner) (JStr repo) (JArr (map fileJs fs)) commitMessage userId w =
     (Inr (map2 fileResult fs outs), w')"
  using pushLoop_writes[OF assms, of "[]"]
  by (simp add: pushProject_def andThen_def lift_def getProp_def bindE_def iterate_def)

lemma pushedLines:
  "mapE (\<lambda>r. render E [T ''   '', T (if pr_success r then e_check else e_cross), T '' '',
                         V (Inr (path r))])
        (map (\<lambda>fo. fileResult (fst fo) (snd fo)) xs) = Inr (map pushedLine xs)"
  by (induction xs) (simp_all add: bindE_def fileResult_fields pushedLine_def)

lemma pushed_count:
  "length (filter pr_success (map (\<lambda>fo. fileResult (fst fo) (snd fo)) xs))
     = length (filter written (map snd xs))"
  by (induction xs) (simp_all add: fileResult_fields)

lemma map2_fileResult:
  "map2 fileResult fs outs = map (\<lambda>fo. fileResult (fst fo) (snd fo)) (zip fs outs)"
  by (simp add: case_prod_beta)

lemma pushSummary_writes:
  assumes "length outs = length fs"
  shows "pushSummary E (JStr owner) (JStr repo) (map2 fileResult fs outs)
           = Inr (pushedText owner repo fs outs)"
proof -
  from assms have s: "map snd (zip fs outs) = outs" by simp
  show ?thesis
    unfolding map2_fileResult pushSummary_def pushedLines pushed_count s
    using assms by (simp add: bindE_def pushedText_def)
qed

text \<open>
  C5. Let the parsed intent ask for \<^verbatim>\<open>push_project\<close> with a list \<open>fs\<close> of files, for a
  connected identity, and let \<open>outs\<close> be the outcomes of writing the files one after the
  other in the order of the list. Then \<open>pushProject\<close> returns normally, in the world the
  last write leaves, a list of results that has the length of \<open>fs\<close>, the paths of \<open>fs\<close>
  in the same order, and for each file the success flag that tells whether that file was
  written; and \<open>runGitHubAgent\<close> returns a successful result whose summary reports the
  number of files written out of the number of files.
\<close>

theorem pushProject_per_file_results:
  assumes parse: "parseIntent E userPrompt w0 = (Inr intent, w)"
    and act: "getProp intent ''action'' = Inr (JStr ''push_project'')"
    and params: "getProp intent ''params'' = Inr (JObj ps)"
    and owner: "map_of ps ''owner'' = Some (JStr owner)"
    and repo: "map_of ps ''repo'' = Some (JStr repo)"
    and files: "map_of ps ''files'' = Some (JArr (map fileJs fs))"
    and conn: "isConnected w userId"
    and outs: "writes E (JStr owner) (JStr repo) fs ''Push from Agentic Workflow'' userId w = (outs, w')"
  shows "\<exists>results.
      pushProject E (JStr owner) (JStr repo) (JArr (map fileJs fs))
          ''Push from Agentic Workflow'' userId w = (Inr results, w')
      \<and> length results = length fs
      \<and> map path results = map (\<lambda>f. JStr (fe_path f)) fs
      \<and> map pr_success results = map written outs
      \<and> runGitHubAgent E userPrompt userId w0 =
          (Inr (emptyResult\<lparr>success := True, action := Some (JStr ''push_project''),
                  summary := Some (pushedText owner repo fs outs),
                  rawData := Some (JArr (map pushResultJs results))\<rparr>), w')"
proof -
  let ?results = "map2 fileResult fs outs"
  from writes_length[OF outs] have len: "length outs = length fs" .
  have push: "pushProject E (JStr owner) (JStr repo) (JArr (map fileJs fs))
          ''Push from Agentic Workflow'' userId w = (Inr ?results, w')"
    by (rule pushProject_writes[OF outs])
  have l: "length ?results = length fs" using len by simp
  have p: "map path ?results = map (\<lambda>f. JStr (fe_path f)) fs"
    using len by (intro nth_equalityI) (simp_all add: fileResult_fields)
  have f: "map pr_success ?results = map written outs"
    using len by (intro nth_equalityI) (simp_all add: fileResult_fields)
  have c: "case_push_project E intent userId w =
             (Inr (Break (JArr (map pushResultJs ?results)) (pushedText owner repo fs outs)), w')"
  proof -
    have g: "getProp (JObj ps) ''owner'' = Inr (JStr owner)"
      "getProp (JObj ps) ''repo'' = Inr (JStr repo)"
      "getProp (JObj ps) ''files'' = Inr (JArr (map fileJs fs))"
      by (simp_all add: getProp_def owner repo files)
    have i: "intentParams intent ''owner'' = Inr (JObj ps)"
      by (simp add: intentParams_def params bindE_def destructure_def nullish_def)
    show ?thesis
      by (simp add: case_push_project_def andThen_lift i g)
         (simp add: andThen_def push pushSummary_writes[OF len] lift_def ret_def)
  qed
  have e: "execAction E intent userId w =
             (Inr (emptyResult\<lparr>success := True, action := Some (JStr ''push_project''),
                  summary := Some (pushedText owner repo fs outs),
                  rawData := Some (JArr (map pushResultJs ?results))\<rparr>), w')"
    by (simp add: execAction_def andThen_lift act) (simp add: andThen_def c ret_def)
  have r: "runGitHubAgent E userPrompt userId w0 =
          (Inr (emptyResult\<lparr>success := True, action := Some (JStr ''push_project''),
                  summary := Some (pushedText owner repo fs outs),
                  rawData := Some (JArr (map pushResultJs ?results))\<rparr>), w')"
    by (simp add: runGitHubAgent_def parse andThen_lift act conn try_catch_def e)
  from push l p f r show ?thesis by blast
qed

theorem pushProject_per_file_results_witness:
  "\<exists>results.
     fst (runGitHubAgent pushEnv ''push a.txt, b.txt and c.txt to octo/demo'' ''alice'' aliceWorld) =
       Inr (emptyResult\<lparr>success := True, action := Some (JStr ''push_project''),
              summary := Some (e_outbox @ '' Pushed 2/3 files to **octo/demo**'' @ nl
                               @ ''   '' @ e_check @ '' a.txt'' @ nl
                               @ ''   '' @ e_cross @ '' b.txt'' @ nl
                               @ ''   '' @ e_check @ '' c.txt''),
              rawData := Some (JArr (map pushResultJs results))\<rparr>)
     \<and> map pr_success results = [True, False, True]
     \<and> map path results = [JStr ''a.txt'', JStr ''b.txt'', JStr ''c.txt'']"
proof -
  let ?p = "''push a.txt, b.txt and c.txt to octo/demo''"
  let ?w = "snd (parseIntent pushEnv ?p aliceWorld)"
  let ?W = "writes pushEnv (JStr ''octo'') (JStr ''demo'') threeFiles
              ''Push from Agentic Workflow'' ''alice'' ?w"
  have "fst (parseIntent pushEnv ?p aliceWorld) = Inr pushThreeIntent" by code_simp
  then have parse: "parseIntent pushEnv ?p aliceWorld = (Inr pushThreeIntent, ?w)"
    by (simp add: prod_eq_iff)
  have act: "getProp pushThreeIntent ''action'' = Inr (JStr ''push_project'')" by code_simp
  have params: "getProp pushThreeIntent ''params'' = Inr (JObj pushThreeParams)" by code_simp
  have owner: "map_of pushThreeParams ''owner'' = Some (JStr ''octo'')" by code_simp
  have repo: "map_of pushThreeParams ''repo'' = Some (JStr ''demo'')" by code_simp
  have files: "map_of pushThreeParams ''files'' = Some (JArr (map fileJs threeFiles))" by code_simp
  have conn: "isConnected ?w ''alice''" by code_simp
  have outs: "?W = (fst ?W, snd ?W)" by simp
  have flags: "map written (fst ?W) = [True, False, True]" by code_simp
  have shown: "pushedText ''octo'' ''demo'' threeFiles (fst ?W) =
               e_outbox @ '' Pushed 2/3 files to **octo/demo**'' @ nl
                 @ ''   '' @ e_check @ '' a.txt'' @ nl
                 @ ''   '' @ e_cross @ '' b.txt'' @ nl
                 @ ''   '' @ e_check @ '' c.txt''"
    by code_simp
  have paths: "map (\<lambda>f. JStr (fe_path f)) threeFiles = [JStr ''a.txt'', JStr ''b.txt'', JStr ''c.txt'']"
    by code_simp
  from pushProject_per_file_results[OF parse act params owner repo files conn outs]
  show ?thesis
    unfolding flags shown paths
  proof (elim exE conjE)
    fix results
    assume f: "map pr_success results = [True, False, True]"
      and p: "map path results = [JStr ''a.txt'', JStr ''b.txt'', JStr ''c.txt'']"
      and run: "runGitHubAgent pushEnv ?p ''alice'' aliceWorld =
       (Inr (emptyResult\<lparr>success := True, action := Some (JStr ''push_project''),
              summary := Some (e_outbox @ '' Pushed 2/3 files to **octo/demo**'' @ nl
                               @ ''   '' @ e_check @ '' a.txt'' @ nl
                               @ ''   '' @ e_cross @ '' b.txt'' @ nl
                               @ ''   '' @ e_check @ '' c.txt''),
              rawData := Some (JArr (map pushResultJs results))\<rparr>), snd ?W)"
    show ?thesis
      unfolding run fst_conv
      by (intro exI[of _ results] conjI refl f p)
  qed
qed

section \<open>Credential-invalid signal during a dispatch\<close>





end
